theory Spec2Isabelle
  imports Complex_Main
begin

section \<open>Data model of the polygon mask plugin\<close>

text \<open>
  The embedding follows \<^verbatim>\<open>src/plugins/polygonMask/src/PolygonMaskInstance.ts\<close>.
  A JavaScript \<^verbatim>\<open>number\<close> is modelled as a \<^typ>\<open>real\<close>: arithmetic is exact, and
  \<^verbatim>\<open>NaN\<close>, the infinities and rounding are outside the model. An optional field or
  argument (\<^verbatim>\<open>undefined\<close>) is an \<^typ>\<open>'a option\<close>; a \<^verbatim>\<open>throw\<close> is the left
  summand of a sum type.
\<close>

record ICoordinates =
  coord_x :: real
  coord_y :: real

record IDimension =
  dim_height :: real
  dim_width :: real

datatype PolygonMaskType = Type_inline | Type_inside | Type_outside | Type_none

datatype PolygonMaskInlineArrangement =
  Arr_equidistant | Arr_onePerPoint | Arr_perPoint | Arr_randomLength | Arr_randomPoint

datatype OutModeDirection = Dir_bottom | Dir_left | Dir_right | Dir_top

text \<open>
  The errors the instance can raise: the two messages declared at the top of the file,
  the failed download of \<^verbatim>\<open>_downloadSvgPath\<close>, and the \<^verbatim>\<open>TypeError\<close> of the
  runtime when a property of \<^verbatim>\<open>undefined\<close> is read.
\<close>

datatype error = NoPolygonDataLoaded | NoPolygonFound | DownloadFailed | TypeError

text \<open>
  The inline \<^verbatim>\<open>data\<close> option: a string holding a whole SVG document, or an object
  with one path string or an array of them and a size.
\<close>

datatype maskData =
  DataSvg string
| DataPath string IDimension
| DataPaths "string list" IDimension

record IPolygonMask =
  opt_enable :: bool
  opt_type :: PolygonMaskType
  opt_url :: "string option"
  opt_data :: "maskData option"
  opt_position :: "ICoordinates option"
  opt_scale :: real
  opt_move_radius :: real
  opt_inline_arrangement :: PolygonMaskInlineArrangement

text \<open>
  What the code uses of an SVG path element of the DOM: its \<^verbatim>\<open>d\<close> attribute, its
  total length and the point at a length along it.
\<close>

record SVGPathElement =
  attr_d :: "string option"
  getTotalLength :: real
  getPointAtLength :: "real \<Rightarrow> ICoordinates"

text \<open>
  A \<^verbatim>\<open>Path2D\<close> is only ever built in two ways by \<^verbatim>\<open>_createPath2D\<close>: from the
  \<^verbatim>\<open>d\<close> attribute under a scale matrix, or as the closed outline of the raw points.
\<close>

datatype Path2D = Path2D_scaled string real | Path2D_outline "ICoordinates list"

record ISvgPath =
  element :: SVGPathElement
  length_of :: real
  path2d :: "Path2D option"

text \<open>
  The instance together with what it reads and writes of its container and engine:
  \<^item> \<open>dimension\<close>, \<open>offset\<close>, \<open>paths\<close>, \<open>raw\<close>, \<open>redrawTimeout\<close>, \<open>moveRadius\<close> and
    \<open>scale\<close> are the fields of the class;
  \<^item> \<open>options\<close> is \<^verbatim>\<open>container.actualOptions.polygon\<close>, \<open>canvasSize\<close> is
    \<^verbatim>\<open>container.canvas.size\<close>, \<open>pixelRatio\<close> is \<^verbatim>\<open>container.retina.pixelRatio\<close>,
    \<open>particlesCount\<close> is \<^verbatim>\<open>container.particles.count\<close> and \<open>particlesNumberValue\<close>
    is \<^verbatim>\<open>container.actualOptions.particles.number.value\<close>;
  \<^item> \<open>added\<close> logs the positions passed to \<^verbatim>\<open>container.particles.addParticle\<close>,
    \<open>events\<close> the names passed to \<^verbatim>\<open>engine.dispatchEvent\<close>, \<open>fetched\<close> the URLs
    passed to \<^verbatim>\<open>fetch\<close> and \<open>parsed\<close> the documents passed to the DOM parser.
\<close>

record PolygonMaskInstance =
  dimension :: IDimension
  offset :: "ICoordinates option"
  paths :: "ISvgPath list option"
  raw :: "ICoordinates list option"
  redrawTimeout :: "nat option"
  moveRadius :: real
  scale :: real
  options :: "IPolygonMask option"
  canvasSize :: IDimension
  pixelRatio :: real
  particlesCount :: nat
  particlesNumberValue :: real
  added :: "ICoordinates list"
  events :: "string list"
  fetched :: "string list"
  parsed :: "string list"

section \<open>Containment: \<^verbatim>\<open>_checkInsidePolygon\<close>\<close>

text \<open>
  The loop \<^verbatim>\<open>for (let i = 0, j = this.raw.length - 1; i < this.raw.length; j = i++)\<close>
  with its flag \<^verbatim>\<open>inside\<close>. The conjunction of the source short-cuts, so the division
  is only evaluated when the two ordinates differ.
\<close>

definition intersect :: "ICoordinates \<Rightarrow> ICoordinates \<Rightarrow> real \<Rightarrow> real \<Rightarrow> bool" where
  "intersect p_i p_j x y \<longleftrightarrow>
     ((coord_y p_i > y) \<noteq> (coord_y p_j > y)) \<and>
     x < ((coord_x p_j - coord_x p_i) * (y - coord_y p_i)) / (coord_y p_j - coord_y p_i)
           + coord_x p_i"

function rayLoop :: "ICoordinates list \<Rightarrow> real \<Rightarrow> real \<Rightarrow> nat \<Rightarrow> nat \<Rightarrow> bool \<Rightarrow> bool" where
  "rayLoop rw x y i j ins =
     (if i < length rw
      then rayLoop rw x y (i + 1) i (if intersect (rw ! i) (rw ! j) x y then \<not> ins else ins)
      else ins)"
  by pat_completeness auto
termination
  by (relation "measure (\<lambda>(rw, x, y, i, j, ins). length rw - i)") auto

declare rayLoop.simps [simp del]

text \<open>
  \<open>position\<close> is the optional argument; \<open>rnd_x\<close> and \<open>rnd_y\<close> are the two values
  \<^verbatim>\<open>getRandom()\<close> would return, read only when no position is given.
\<close>

definition checkInsidePolygon ::
  "PolygonMaskInstance \<Rightarrow> ICoordinates option \<Rightarrow> real \<Rightarrow> real \<Rightarrow> error + bool" where
  "checkInsidePolygon this position rnd_x rnd_y =
     (case options this of
        None \<Rightarrow> Inr True
      | Some opts \<Rightarrow>
          if \<not> opt_enable opts \<or> opt_type opts = Type_none \<or> opt_type opts = Type_inline
          then Inr True
          else (case raw this of
                  None \<Rightarrow> Inl NoPolygonFound
                | Some rw \<Rightarrow>
                    let x = (case position of Some p \<Rightarrow> coord_x p
                                            | None \<Rightarrow> rnd_x * dim_width (canvasSize this));
                        y = (case position of Some p \<Rightarrow> coord_y p
                                            | None \<Rightarrow> rnd_y * dim_height (canvasSize this));
                        ins = rayLoop rw x y 0 (length rw - 1) False
                    in Inr (if opt_type opts = Type_inside then ins
                            else if opt_type opts = Type_outside then \<not> ins
                            else False)))"

section \<open>Lifecycle: \<^verbatim>\<open>stop\<close>\<close>

definition stop :: "PolygonMaskInstance \<Rightarrow> PolygonMaskInstance" where
  "stop this = this\<lparr>raw := None, paths := None\<rparr>"

section \<open>Samplers\<close>

text \<open>
  The remainder \<^verbatim>\<open>a % b\<close> of JavaScript on integers takes the sign of the dividend.
\<close>

definition js_rem :: "int \<Rightarrow> int \<Rightarrow> int" where
  "js_rem a b = sgn a * (\<bar>a\<bar> mod \<bar>b\<bar>)"

text \<open>
  \<^verbatim>\<open>_getPointByIndex\<close>. The index is a whole number (the caller passes
  \<^verbatim>\<open>container.particles.count\<close>). Reading an array at a negative index gives
  \<^verbatim>\<open>undefined\<close>, whose \<^verbatim>\<open>x\<close> cannot be read.
\<close>

definition getPointByIndex :: "PolygonMaskInstance \<Rightarrow> int \<Rightarrow> error + ICoordinates" where
  "getPointByIndex this index =
     (case raw this of
        None \<Rightarrow> Inl NoPolygonDataLoaded
      | Some rw \<Rightarrow>
          if length rw = 0 then Inl NoPolygonDataLoaded
          else let k = js_rem index (int (length rw))
               in if k < 0 then Inl TypeError
                  else let coords = rw ! nat k
                       in Inr \<lparr>coord_x = coord_x coords, coord_y = coord_y coords\<rparr>)"

text \<open>
  \<^verbatim>\<open>itemFromArray\<close> of the engine picks the element at a random index; \<open>rnd\<close> is the
  value of \<^verbatim>\<open>getRandom()\<close> it draws, a number from 0 up to but not including 1.
\<close>

definition itemFromArray :: "'a list \<Rightarrow> real \<Rightarrow> error + 'a" where
  "itemFromArray arr rnd =
     (let k = \<lfloor>rnd * real (length arr)\<rfloor>
      in if 0 \<le> k \<and> k < int (length arr) then Inr (arr ! nat k) else Inl TypeError)"

definition getRandomPoint :: "PolygonMaskInstance \<Rightarrow> real \<Rightarrow> error + ICoordinates" where
  "getRandomPoint this rnd =
     (case raw this of
        None \<Rightarrow> Inl NoPolygonDataLoaded
      | Some rw \<Rightarrow>
          if length rw = 0 then Inl NoPolygonDataLoaded
          else (case itemFromArray rw rnd of
                  Inl e \<Rightarrow> Inl e
                | Inr coords \<Rightarrow> Inr \<lparr>coord_x = coord_x coords, coord_y = coord_y coords\<rparr>))"

text \<open>The guard shared by the two samplers that walk the paths.\<close>

definition pathsLoaded :: "PolygonMaskInstance \<Rightarrow> ISvgPath list option" where
  "pathsLoaded this =
     (case raw this of
        None \<Rightarrow> None
      | Some rw \<Rightarrow>
          if length rw = 0 then None
          else (case paths this of
                  None \<Rightarrow> None
                | Some ps \<Rightarrow> if length ps = 0 then None else Some ps))"

definition getRandomPointByLength ::
  "PolygonMaskInstance \<Rightarrow> real \<Rightarrow> real \<Rightarrow> error + ICoordinates option" where
  "getRandomPointByLength this rnd_item rnd =
     (case options this of
        None \<Rightarrow> Inr None
      | Some opts \<Rightarrow>
          (case pathsLoaded this of
             None \<Rightarrow> Inl NoPolygonDataLoaded
           | Some ps \<Rightarrow>
               (case itemFromArray ps rnd_item of
                  Inl e \<Rightarrow> Inl e
                | Inr path \<Rightarrow>
                    let distance = of_int \<lfloor>rnd * length_of path\<rfloor> + 1;
                        point = getPointAtLength (element path) distance
                    in Inr (Some \<lparr>coord_x = coord_x point * scale this
                                     + (case offset this of Some off \<Rightarrow> coord_x off | None \<Rightarrow> 0),
                                   coord_y = coord_y point * scale this
                                     + (case offset this of Some off \<Rightarrow> coord_y off | None \<Rightarrow> 0)\<rparr>))))"

text \<open>
  \<^verbatim>\<open>_getEquidistantPointByIndex\<close> divides by the target particle count, which can
  be 0: a JavaScript division by 0 gives an infinity, or \<^verbatim>\<open>NaN\<close> for 0 over 0. The
  number that results, its product with the index, the subtraction of the running
  offset and the comparison \<^verbatim>\<open><=\<close> are therefore modelled on a type with these three
  values beside the finite numbers. A product of an infinity with 0 is \<^verbatim>\<open>NaN\<close>, and
  \<^verbatim>\<open>NaN\<close> compares false with everything.
\<close>

datatype jsnumber = Finite real | PlusInfinity | MinusInfinity | NaN

definition js_divide :: "real \<Rightarrow> real \<Rightarrow> jsnumber" where
  "js_divide a b =
     (if b \<noteq> 0 then Finite (a / b)
      else if a > 0 then PlusInfinity
      else if a < 0 then MinusInfinity
      else NaN)"

definition js_times :: "jsnumber \<Rightarrow> real \<Rightarrow> jsnumber" where
  "js_times a b =
     (case a of
        Finite v \<Rightarrow> Finite (v * b)
      | PlusInfinity \<Rightarrow> (if b > 0 then PlusInfinity else if b < 0 then MinusInfinity else NaN)
      | MinusInfinity \<Rightarrow> (if b > 0 then MinusInfinity else if b < 0 then PlusInfinity else NaN)
      | NaN \<Rightarrow> NaN)"

definition js_minus :: "jsnumber \<Rightarrow> real \<Rightarrow> jsnumber" where
  "js_minus a b = (case a of Finite v \<Rightarrow> Finite (v - b) | other \<Rightarrow> other)"

definition js_le :: "jsnumber \<Rightarrow> real \<Rightarrow> bool" where
  "js_le a b =
     (case a of
        Finite v \<Rightarrow> v \<le> b
      | PlusInfinity \<Rightarrow> False
      | MinusInfinity \<Rightarrow> True
      | NaN \<Rightarrow> False)"

text \<open>
  \<^verbatim>\<open>_getEquidistantPointByIndex\<close>: the total length, the distance between two
  particles, and the walk over the paths with its running \<^verbatim>\<open>offset\<close>. The walk
  returns the point of the first path it stops at, or nothing when it stops at none.
  \<^verbatim>\<open>getPointAtLength\<close> of the DOM takes a finite number and throws a
  \<^verbatim>\<open>TypeError\<close> for any other.
\<close>

definition totalLength :: "ISvgPath list \<Rightarrow> real" where
  "totalLength ps = foldl (\<lambda>tot path. tot + length_of path) 0 ps"

definition equidistantDistance :: "PolygonMaskInstance \<Rightarrow> ISvgPath list \<Rightarrow> jsnumber" where
  "equidistantDistance this ps = js_divide (totalLength ps) (particlesNumberValue this)"

fun equidistantWalk :: "ISvgPath list \<Rightarrow> jsnumber \<Rightarrow> real \<Rightarrow> error + ICoordinates option" where
  "equidistantWalk [] target off = Inr None"
| "equidistantWalk (path # rest) target off =
     (let pathDistance = js_minus target off
      in if js_le pathDistance (length_of path)
         then (case pathDistance of
                 Finite d \<Rightarrow> Inr (Some (getPointAtLength (element path) d))
               | _ \<Rightarrow> Inl TypeError)
         else equidistantWalk rest target (off + length_of path))"

definition getEquidistantPointByIndex ::
  "PolygonMaskInstance \<Rightarrow> int \<Rightarrow> error + ICoordinates option" where
  "getEquidistantPointByIndex this index =
     (case options this of
        None \<Rightarrow> Inr None
      | Some opts \<Rightarrow>
          (case pathsLoaded this of
             None \<Rightarrow> Inl NoPolygonDataLoaded
           | Some ps \<Rightarrow>
               let distance = equidistantDistance this ps
               in (case equidistantWalk ps (js_times distance (of_int index)) 0 of
                     Inl e \<Rightarrow> Inl e
                   | Inr point \<Rightarrow>
                       Inr (Some \<lparr>coord_x = (case point of Some pt \<Rightarrow> coord_x pt | None \<Rightarrow> 0) * scale this
                                     + (case offset this of Some off \<Rightarrow> coord_x off | None \<Rightarrow> 0),
                                   coord_y = (case point of Some pt \<Rightarrow> coord_y pt | None \<Rightarrow> 0) * scale this
                                     + (case offset this of Some off \<Rightarrow> coord_y off | None \<Rightarrow> 0)\<rparr>))))"

text \<open>
  \<^verbatim>\<open>_randomPoint\<close> calls itself until the containment test accepts the point, with
  no bound. The model takes the number of attempts allowed (\<open>None\<close>: not returned
  within them) and the sequence \<open>rnd\<close> of the values of \<^verbatim>\<open>getRandom()\<close>, read from
  position \<open>k\<close> on.
\<close>

fun randomPoint ::
  "nat \<Rightarrow> PolygonMaskInstance \<Rightarrow> (nat \<Rightarrow> real) \<Rightarrow> nat \<Rightarrow> (error + ICoordinates option) option" where
  "randomPoint 0 this rnd k = None"
| "randomPoint (Suc n) this rnd k =
     (case options this of
        None \<Rightarrow> Some (Inr None)
      | Some opts \<Rightarrow>
          (case (if opt_type opts = Type_inline
                 then (case opt_inline_arrangement opts of
                         Arr_randomPoint \<Rightarrow> (map_sum id Some (getRandomPoint this (rnd k)), k + 1)
                       | Arr_randomLength \<Rightarrow>
                           (getRandomPointByLength this (rnd k) (rnd (k + 1)), k + 2)
                       | Arr_equidistant \<Rightarrow>
                           (getEquidistantPointByIndex this (int (particlesCount this)), k)
                       | _ \<Rightarrow> (map_sum id Some (getPointByIndex this (int (particlesCount this))), k))
                 else (Inr (Some \<lparr>coord_x = rnd k * dim_width (canvasSize this),
                                  coord_y = rnd (k + 1) * dim_height (canvasSize this)\<rparr>), k + 2)) of
             (Inl e, k') \<Rightarrow> Some (Inl e)
           | (Inr position, k') \<Rightarrow>
               (case checkInsidePolygon this position (rnd k') (rnd (k' + 1)) of
                  Inl e \<Rightarrow> Some (Inl e)
                | Inr ok \<Rightarrow>
                    if ok then Some (Inr position)
                    else randomPoint n this rnd (if position = None then k' + 2 else k'))))"

text \<open>
  \<^verbatim>\<open>particlePosition\<close>. \<^verbatim>\<open>deepExtend({}, p)\<close> builds a new object with the fields
  of \<open>p\<close>; in a model of values that is \<open>p\<close> itself.
\<close>

definition particlePosition ::
  "nat \<Rightarrow> PolygonMaskInstance \<Rightarrow> ICoordinates option \<Rightarrow> (nat \<Rightarrow> real) \<Rightarrow> nat
     \<Rightarrow> (error + ICoordinates option) option" where
  "particlePosition n this position rnd k =
     (if \<not> ((case options this of None \<Rightarrow> False | Some opts \<Rightarrow> opt_enable opts) \<and>
              (case raw this of None \<Rightarrow> 0 | Some rw \<Rightarrow> length rw) > 0)
      then Some (Inr None)
      else (case position of
              Some p \<Rightarrow> Some (Inr (Some p))
            | None \<Rightarrow> randomPoint n this rnd k))"

section \<open>Initial particles: \<^verbatim>\<open>particlesInitialization\<close>\<close>

definition drawPoints :: "PolygonMaskInstance \<Rightarrow> PolygonMaskInstance" where
  "drawPoints this =
     (case raw this of
        None \<Rightarrow> this
      | Some rw \<Rightarrow>
          foldl (\<lambda>s item. s\<lparr>added := added s @ [\<lparr>coord_x = coord_x item, coord_y = coord_y item\<rparr>]\<rparr>)
                this rw)"

definition particlesInitialization :: "PolygonMaskInstance \<Rightarrow> bool \<times> PolygonMaskInstance" where
  "particlesInitialization this =
     (case options this of
        None \<Rightarrow> (False, this)
      | Some opts \<Rightarrow>
          if opt_enable opts \<and> opt_type opts = Type_inline \<and>
             (opt_inline_arrangement opts = Arr_onePerPoint \<or>
              opt_inline_arrangement opts = Arr_perPoint)
          then (True, drawPoints this)
          else (False, this))"

section \<open>Loading: \<^verbatim>\<open>_initRawData\<close>, \<^verbatim>\<open>_downloadSvgPath\<close>, \<^verbatim>\<open>_parseSvgPath\<close>\<close>

text \<open>
  What the DOM parser returns, as far as \<^verbatim>\<open>_parseSvgPath\<close> reads it: the
  \<^verbatim>\<open>svg\<close> elements of the document, each with the \<^verbatim>\<open>path\<close> elements below it and
  the numbers \<^verbatim>\<open>parseFloat\<close> reads from its \<^verbatim>\<open>width\<close> and \<^verbatim>\<open>height\<close> attributes
  (\<open>None\<close>: no such attribute), and the \<^verbatim>\<open>path\<close> elements of the whole document.
\<close>

record SVGSVGElement =
  svg_paths :: "SVGPathElement list"
  attr_width :: "real option"
  attr_height :: "real option"

record Document =
  doc_svgs :: "SVGSVGElement list"
  doc_paths :: "SVGPathElement list"

text \<open>
  \<^verbatim>\<open>fetch\<close> rejects (a network failure), or resolves to a response with its
  \<^verbatim>\<open>ok\<close> flag and its text.
\<close>

datatype Response = Rejected | Resolved bool string

datatype load_error = FetchRejected | LoadError error

text \<open>What \<^verbatim>\<open>getDistances\<close> of the engine returns.\<close>

record IDistance =
  dist_dx :: real
  dist_dy :: real
  dist_distance :: real

text \<open>
  The functions the instance imports from \<^verbatim>\<open>./utils\<close>, from the engine and from the
  browser, which are not part of the file: they are parameters of the model.
  \<open>hasAddPath\<close> says whether \<^verbatim>\<open>Path2D.addPath\<close> exists; \<open>numberToString\<close> is the
  conversion of a number inside a template string.
\<close>

record Helpers =
  fetch :: "string \<Rightarrow> Response"
  parseFromString :: "string \<Rightarrow> Document"
  parsePaths :: "ISvgPath list \<Rightarrow> real \<Rightarrow> ICoordinates \<Rightarrow> ICoordinates list"
  numberToString :: "real \<Rightarrow> string"
  hasAddPath :: bool
  calcClosestPtOnSegment :: "ICoordinates \<Rightarrow> ICoordinates \<Rightarrow> ICoordinates \<Rightarrow> ICoordinates"
  getDistances :: "ICoordinates \<Rightarrow> ICoordinates \<Rightarrow> IDistance"
  getDistance :: "ICoordinates \<Rightarrow> ICoordinates \<Rightarrow> real"
  segmentBounce :: "ICoordinates \<Rightarrow> ICoordinates \<Rightarrow> ICoordinates \<Rightarrow> ICoordinates"

text \<open>A string option is truthy when it is a non-empty string.\<close>

definition truthy :: "string option \<Rightarrow> bool" where
  "truthy u = (case u of None \<Rightarrow> False | Some v \<Rightarrow> v \<noteq> [])"

definition forceDownload :: "bool option \<Rightarrow> bool" where
  "forceDownload force = (case force of None \<Rightarrow> False | Some b \<Rightarrow> b)"

definition parseSvgPath ::
  "Helpers \<Rightarrow> PolygonMaskInstance \<Rightarrow> string \<Rightarrow> bool option
     \<Rightarrow> load_error + (ICoordinates list option \<times> PolygonMaskInstance)" where
  "parseSvgPath h this xml force =
     (if paths this \<noteq> None \<and> \<not> forceDownload force then Inr (raw this, this)
      else (case options this of
              None \<Rightarrow> Inr (None, this)
            | Some opts \<Rightarrow>
                let doc = parseFromString h xml;
                    this1 = this\<lparr>parsed := parsed this @ [xml]\<rparr>
                in (case doc_svgs doc of
                      [] \<Rightarrow> Inl (LoadError TypeError)
                    | svg # _ \<Rightarrow>
                        let svgPaths = (if length (svg_paths svg) = 0 then doc_paths doc
                                        else svg_paths svg);
                            ps = map (\<lambda>path. \<lparr>element = path, length_of = getTotalLength path,
                                               path2d = None\<rparr>) svgPaths;
                            scl = scale this;
                            dim = \<lparr>dim_height = (case attr_height svg of None \<Rightarrow> 0 | Some v \<Rightarrow> v) * scl,
                                    dim_width = (case attr_width svg of None \<Rightarrow> 0 | Some v \<Rightarrow> v) * scl\<rparr>;
                            position = (case opt_position opts of
                                          None \<Rightarrow> \<lparr>coord_x = 50, coord_y = 50\<rparr>
                                        | Some p \<Rightarrow> p);
                            off = \<lparr>coord_x = (dim_width (canvasSize this1) * coord_x position) / 100
                                              - dim_width dim / 2,
                                    coord_y = (dim_height (canvasSize this1) * coord_y position) / 100
                                              - dim_height dim / 2\<rparr>;
                            this2 = this1\<lparr>paths := Some ps, dimension := dim, offset := Some off\<rparr>
                        in Inr (Some (parsePaths h ps scl off), this2))))"

definition downloadSvgPath ::
  "Helpers \<Rightarrow> PolygonMaskInstance \<Rightarrow> string option \<Rightarrow> bool option
     \<Rightarrow> load_error + (ICoordinates list option \<times> PolygonMaskInstance)" where
  "downloadSvgPath h this svgUrl force =
     (case options this of
        None \<Rightarrow> Inr (None, this)
      | Some opts \<Rightarrow>
          let url = (if truthy svgUrl then svgUrl else opt_url opts)
          in if \<not> truthy url \<or> (paths this \<noteq> None \<and> \<not> forceDownload force)
             then Inr (raw this, this)
             else (case url of
                     None \<Rightarrow> Inr (raw this, this)
                   | Some u \<Rightarrow>
                       (case fetch h u of
                          Rejected \<Rightarrow> Inl FetchRejected
                        | Resolved ok txt \<Rightarrow>
                            if \<not> ok then Inl (LoadError DownloadFailed)
                            else parseSvgPath h (this\<lparr>fetched := fetched this @ [u]\<rparr>) txt force)))"

text \<open>
  \<^verbatim>\<open>_createPath2D\<close>, one path at a time: the path built from the \<^verbatim>\<open>d\<close>
  attribute when there is one and \<^verbatim>\<open>addPath\<close> exists, else the outline of the raw
  points, whose first point is read before the others.
\<close>

definition createPath2D_step ::
  "Helpers \<Rightarrow> PolygonMaskInstance \<Rightarrow> ISvgPath \<Rightarrow> error + ISvgPath" where
  "createPath2D_step h this path =
     (let path1 = (case attr_d (element path) of
                     None \<Rightarrow> path\<lparr>path2d := None\<rparr>
                   | Some pathData \<Rightarrow>
                       if pathData \<noteq> [] \<and> hasAddPath h
                       then path\<lparr>path2d := Some (Path2D_scaled pathData (scale this))\<rparr>
                       else path\<lparr>path2d := None\<rparr>)
      in (case raw this of
            None \<Rightarrow> Inr path1
          | Some rw \<Rightarrow>
              if path2d path1 \<noteq> None then Inr path1
              else if length rw = 0 then Inl TypeError
              else Inr (path1\<lparr>path2d := Some (Path2D_outline rw)\<rparr>)))"

fun createPath2D_loop ::
  "Helpers \<Rightarrow> PolygonMaskInstance \<Rightarrow> ISvgPath list \<Rightarrow> error + ISvgPath list" where
  "createPath2D_loop h this [] = Inr []"
| "createPath2D_loop h this (path # rest) =
     (case createPath2D_step h this path of
        Inl e \<Rightarrow> Inl e
      | Inr path' \<Rightarrow>
          (case createPath2D_loop h this rest of
             Inl e \<Rightarrow> Inl e
           | Inr rest' \<Rightarrow> Inr (path' # rest')))"

definition createPath2D :: "Helpers \<Rightarrow> PolygonMaskInstance \<Rightarrow> error + PolygonMaskInstance" where
  "createPath2D h this =
     (case options this of
        None \<Rightarrow> Inr this
      | Some opts \<Rightarrow>
          (case paths this of
             None \<Rightarrow> Inr this
           | Some ps \<Rightarrow>
               if length ps = 0 then Inr this
               else (case createPath2D_loop h this ps of
                       Inl e \<Rightarrow> Inl e
                     | Inr ps' \<Rightarrow> Inr (this\<lparr>paths := Some ps'\<rparr>))))"

definition getPath :: "string \<Rightarrow> string" where
  "getPath p = ''<path d='' @ [CHR 0x22] @ p @ [CHR 0x22] @ '' />''"

definition namespaces :: string where
  "namespaces = ''xmlns='' @ [CHR 0x22] @ ''http://www.w3.org/2000/svg'' @ [CHR 0x22] @
                '' xmlns:xlink='' @ [CHR 0x22] @ ''http://www.w3.org/1999/xlink'' @ [CHR 0x22]"

definition svgOf :: "Helpers \<Rightarrow> string \<Rightarrow> IDimension \<Rightarrow> string" where
  "svgOf h path sz =
     ''<svg '' @ namespaces @ '' width='' @ [CHR 0x22] @ numberToString h (dim_width sz) @ [CHR 0x22] @
     '' height='' @ [CHR 0x22] @ numberToString h (dim_height sz) @ [CHR 0x22] @ ''>'' @
     path @ ''</svg>''"

text \<open>An inline \<^verbatim>\<open>data\<close> option is truthy unless it is the empty string.\<close>

definition dataSvg :: "Helpers \<Rightarrow> maskData option \<Rightarrow> string option" where
  "dataSvg h data =
     (case data of
        None \<Rightarrow> None
      | Some (DataSvg d) \<Rightarrow> if d = [] then None else Some d
      | Some (DataPath p sz) \<Rightarrow> Some (svgOf h (getPath p) sz)
      | Some (DataPaths ps sz) \<Rightarrow> Some (svgOf h (concat (map getPath ps)) sz))"

text \<open>
  \<^verbatim>\<open>_initRawData\<close> in two steps: the assignment to \<^verbatim>\<open>this.raw\<close> from the URL or
  from the inline data (\<open>loadRawData\<close>), then the paths for drawing and the event.
\<close>

definition loadRawData ::
  "Helpers \<Rightarrow> PolygonMaskInstance \<Rightarrow> IPolygonMask \<Rightarrow> bool option
     \<Rightarrow> load_error + PolygonMaskInstance" where
  "loadRawData h this opts force =
     (if truthy (opt_url opts)
      then (case downloadSvgPath h this (opt_url opts) force of
              Inl e \<Rightarrow> Inl e
            | Inr (r, this1) \<Rightarrow> Inr (this1\<lparr>raw := r\<rparr>))
      else (case dataSvg h (opt_data opts) of
              Some svg \<Rightarrow>
                (case parseSvgPath h this svg force of
                   Inl e \<Rightarrow> Inl e
                 | Inr (r, this1) \<Rightarrow> Inr (this1\<lparr>raw := r\<rparr>))
            | None \<Rightarrow> Inr this))"

definition initRawData ::
  "Helpers \<Rightarrow> PolygonMaskInstance \<Rightarrow> bool option \<Rightarrow> load_error + PolygonMaskInstance" where
  "initRawData h this force =
     (case options this of
        None \<Rightarrow> Inr this
      | Some opts \<Rightarrow>
          (case loadRawData h this opts force of
             Inl e \<Rightarrow> Inl e
           | Inr this1 \<Rightarrow>
               (case createPath2D h this1 of
                  Inl e \<Rightarrow> Inl (LoadError e)
                | Inr this2 \<Rightarrow> Inr (this2\<lparr>events := events this2 @ [''polygonMaskLoaded'']\<rparr>))))"

section \<open>Collisions: \<^verbatim>\<open>_polygonBounce\<close>\<close>

text \<open>
  What the code uses of a particle: its \<^verbatim>\<open>position\<close>, \<^verbatim>\<open>velocity\<close> and
  \<^verbatim>\<open>initialPosition\<close> fields, and the values its \<^verbatim>\<open>getPosition()\<close> and
  \<^verbatim>\<open>getRadius()\<close> methods return.
\<close>

record Particle =
  p_position :: ICoordinates
  p_velocity :: ICoordinates
  p_initialPosition :: "ICoordinates option"
  p_getPosition :: ICoordinates
  p_getRadius :: real

text \<open>
  \<^verbatim>\<open>Vector.mult\<close> of the engine returns a new vector with both components scaled
  and leaves the vector it is called on as it is.
\<close>

definition mult :: "ICoordinates \<Rightarrow> real \<Rightarrow> ICoordinates" where
  "mult v n = \<lparr>coord_x = coord_x v * n, coord_y = coord_y v * n\<rparr>"

text \<open>
  The loop over the edges: it stops at the first edge nearer than the radius (left
  summand: that edge), else it ends with the \<^verbatim>\<open>closest\<close>, \<^verbatim>\<open>dx\<close> and \<^verbatim>\<open>dy\<close> of
  the last edge it looked at (\<open>None\<close> when there was no edge). In
  \<^verbatim>\<open>_polygonBounce\<close> the containment test is given the position, so it draws no
  random number and the two draws passed to it are never read. The statement
  \<^verbatim>\<open>particle.velocity.mult(-1);\<close> computes the negated velocity and drops it: the
  particle keeps its velocity.
\<close>

function bounceLoop ::
  "Helpers \<Rightarrow> ICoordinates list \<Rightarrow> ICoordinates \<Rightarrow> real \<Rightarrow> nat \<Rightarrow> nat
     \<Rightarrow> (ICoordinates \<times> real \<times> real) option
     \<Rightarrow> (ICoordinates \<times> ICoordinates) + (ICoordinates \<times> real \<times> real) option" where
  "bounceLoop h rw pos radius i j last_seen =
     (if i < length rw
      then (if dist_distance (getDistances h pos (calcClosestPtOnSegment h (rw ! i) (rw ! j) pos)) < radius
            then Inl (rw ! i, rw ! j)
            else bounceLoop h rw pos radius (i + 1) i
                   (Some (calcClosestPtOnSegment h (rw ! i) (rw ! j) pos,
                          dist_dx (getDistances h pos (calcClosestPtOnSegment h (rw ! i) (rw ! j) pos)),
                          dist_dy (getDistances h pos (calcClosestPtOnSegment h (rw ! i) (rw ! j) pos)))))
      else Inr last_seen)"
  by pat_completeness auto
termination
  by (relation "measure (\<lambda>(h, rw, pos, radius, i, j, last_seen). length rw - i)") auto

declare bounceLoop.simps [simp del]

definition polygonBounce ::
  "Helpers \<Rightarrow> PolygonMaskInstance \<Rightarrow> Particle \<Rightarrow> OutModeDirection \<Rightarrow> error + (bool \<times> Particle)" where
  "polygonBounce h this particle direction =
     (case (raw this, options this) of
        (Some rw, Some opts) \<Rightarrow>
          if \<not> opt_enable opts \<or> direction \<noteq> Dir_top then Inr (False, particle)
          else if opt_type opts = Type_inside \<or> opt_type opts = Type_outside
          then (let pos = p_getPosition particle;
                    radius = p_getRadius particle
                in (case bounceLoop h rw pos radius 0 (length rw - 1) None of
                      Inl (p_i, p_j) \<Rightarrow>
                        Inr (True, particle\<lparr>p_velocity := segmentBounce h p_i p_j (p_velocity particle)\<rparr>)
                    | Inr None \<Rightarrow> Inr (False, particle)
                    | Inr (Some (closest, dx, dy)) \<Rightarrow>
                        (case checkInsidePolygon this (Some pos) 0 0 of
                           Inl e \<Rightarrow> Inl e
                         | Inr ok \<Rightarrow>
                             if ok then Inr (False, particle)
                             else let factor_x = (if coord_x pos \<ge> coord_x closest then - 1 else 1);
                                      factor_y = (if coord_y pos \<ge> coord_y closest then - 1 else 1);
                                      diameter = radius * 2;
                                      discarded = mult (p_velocity particle) (- 1)
                                  in Inr (True,
                                          particle\<lparr>p_position :=
                                                     \<lparr>coord_x = coord_x closest + diameter * factor_x,
                                                      coord_y = coord_y closest + diameter * factor_y\<rparr>\<rparr>))))
          else if opt_type opts = Type_inline
          then (case p_initialPosition particle of
                  None \<Rightarrow> Inr (False, particle)
                | Some initialPosition \<Rightarrow>
                    let dist = getDistance h initialPosition (p_getPosition particle);
                        velocity = p_velocity particle
                    in if dist > moveRadius this
                       then (let vx = coord_y velocity / 2 - coord_x velocity;
                                 vy = vx / 2 - coord_y velocity
                             in Inr (True, particle\<lparr>p_velocity := \<lparr>coord_x = vx, coord_y = vy\<rparr>\<rparr>))
                       else Inr (False, particle))
          else Inr (False, particle)
      | _ \<Rightarrow> Inr (False, particle))"

definition particleBounce ::
  "Helpers \<Rightarrow> PolygonMaskInstance \<Rightarrow> Particle \<Rightarrow> OutModeDirection \<Rightarrow> error + (bool \<times> Particle)" where
  "particleBounce h this particle direction = polygonBounce h this particle direction"

section \<open>The specification's wording, and the instances the theorems are run on\<close>

text \<open>
  The edge test in the words of the specification: exactly one endpoint lies strictly
  above the ordinate \<open>y\<close>, and the abscissa of the edge at \<open>y\<close>, by linear
  interpolation, is greater than \<open>x\<close>. A point is inside when the number of such edges
  of the closed polygon is odd; the edge of vertex \<open>i\<close> joins it to the vertex before it,
  the first vertex to the last.
\<close>

definition spec_edgeCrosses :: "ICoordinates \<Rightarrow> ICoordinates \<Rightarrow> real \<Rightarrow> real \<Rightarrow> bool" where
  "spec_edgeCrosses p q x y \<longleftrightarrow>
     ((coord_y p > y \<and> \<not> coord_y q > y) \<or> (coord_y q > y \<and> \<not> coord_y p > y)) \<and>
     coord_x p + (y - coord_y p) * (coord_x q - coord_x p) / (coord_y q - coord_y p) > x"

definition spec_pointInPolygon :: "ICoordinates list \<Rightarrow> real \<Rightarrow> real \<Rightarrow> bool" where
  "spec_pointInPolygon rw x y =
     odd (length (filter (\<lambda>i. spec_edgeCrosses (rw ! i) (rw ! ((i + length rw - 1) mod length rw)) x y)
                    [0..<length rw]))"

text \<open>The square of the specification, loaded in an enabled mask of type \<open>inside\<close>.\<close>

definition square :: "ICoordinates list" where
  "square = [\<lparr>coord_x = 0, coord_y = 0\<rparr>, \<lparr>coord_x = 10, coord_y = 0\<rparr>,
             \<lparr>coord_x = 10, coord_y = 10\<rparr>, \<lparr>coord_x = 0, coord_y = 10\<rparr>]"

definition squareOptions :: IPolygonMask where
  "squareOptions = \<lparr>opt_enable = True, opt_type = Type_inside, opt_url = None, opt_data = None,
     opt_position = None, opt_scale = 1, opt_move_radius = 0,
     opt_inline_arrangement = Arr_onePerPoint\<rparr>"

definition squareInstance :: PolygonMaskInstance where
  "squareInstance = \<lparr>dimension = \<lparr>dim_height = 0, dim_width = 0\<rparr>, offset = None, paths = None,
     raw = Some square, redrawTimeout = None, moveRadius = 0, scale = 1,
     options = Some squareOptions, canvasSize = \<lparr>dim_height = 600, dim_width = 800\<rparr>,
     pixelRatio = 1, particlesCount = 0, particlesNumberValue = 4, added = [], events = [],
     fetched = [], parsed = []\<rparr>"

text \<open>The same mask with type \<open>inline\<close>, and one that has an offset and parsed paths.\<close>

definition inlineInstance :: PolygonMaskInstance where
  "inlineInstance = squareInstance\<lparr>options := Some (squareOptions\<lparr>opt_type := Type_inline\<rparr>)\<rparr>"

definition loadedInstance :: PolygonMaskInstance where
  "loadedInstance = squareInstance\<lparr>offset := Some \<lparr>coord_x = 300, coord_y = 250\<rparr>, paths := Some []\<rparr>"

text \<open>
  \<^verbatim>\<open>stop()\<close> in the words of the specification: the polygon, the paths and the offset
  are all gone afterwards.
\<close>

definition spec_stop_discards :: "PolygonMaskInstance \<Rightarrow> bool" where
  "spec_stop_discards this \<longleftrightarrow>
     raw (stop this) = None \<and> paths (stop this) = None \<and> offset (stop this) = None"

text \<open>
  \<^verbatim>\<open>particlesInitialization()\<close> in the words of the specification: the arrangement
  alone decides; one particle per vertex and \<open>True\<close> for \<open>onePerPoint\<close> and \<open>perPoint\<close>,
  nothing and \<open>False\<close> otherwise.
\<close>

definition spec_particlesInitialization :: "PolygonMaskInstance \<Rightarrow> IPolygonMask \<Rightarrow> bool" where
  "spec_particlesInitialization this opts \<longleftrightarrow>
     (if opt_inline_arrangement opts = Arr_onePerPoint \<or> opt_inline_arrangement opts = Arr_perPoint
      then particlesInitialization this
             = (True, this\<lparr>added := added this @ (case raw this of None \<Rightarrow> [] | Some rw \<Rightarrow> rw)\<rparr>)
      else particlesInitialization this = (False, this))"

text \<open>
  Modelled from the spec: \<^verbatim>\<open>getDistances\<close> of the engine, which is not part of the
  file. It decomposes the vector between two points into its two differences and its
  Euclidean length.
\<close>

definition spec_getDistances :: "ICoordinates \<Rightarrow> ICoordinates \<Rightarrow> IDistance" where
  "spec_getDistances a b =
     \<lparr>dist_dx = coord_x a - coord_x b, dist_dy = coord_y a - coord_y b,
      dist_distance = sqrt ((coord_x a - coord_x b)\<^sup>2 + (coord_y a - coord_y b)\<^sup>2)\<rparr>"

text \<open>
  Modelled from the spec: \<^verbatim>\<open>calcClosestPtOnSegment\<close> of \<^verbatim>\<open>./utils\<close>, which is not
  part of the file. It is the orthogonal projection of the point onto the segment,
  clamped to the endpoints when the projection parameter falls outside 0 to 1.
\<close>

definition spec_calcClosestPtOnSegment ::
  "ICoordinates \<Rightarrow> ICoordinates \<Rightarrow> ICoordinates \<Rightarrow> ICoordinates" where
  "spec_calcClosestPtOnSegment a b point =
     (let dx = coord_x b - coord_x a;
          dy = coord_y b - coord_y a;
          t = ((coord_x point - coord_x a) * dx + (coord_y point - coord_y a) * dy) / (dx\<^sup>2 + dy\<^sup>2)
      in if t < 0 then a
         else if t > 1 then b
         else \<lparr>coord_x = coord_x a + dx * t, coord_y = coord_y a + dy * t\<rparr>)"

text \<open>
  Modelled from the spec: \<^verbatim>\<open>segmentBounce\<close> of \<^verbatim>\<open>./utils\<close>, which is not part of
  the file. It reflects the velocity across the normal of the segment.
\<close>

definition spec_reflectVelocity :: "ICoordinates \<Rightarrow> ICoordinates \<Rightarrow> ICoordinates \<Rightarrow> ICoordinates" where
  "spec_reflectVelocity a b v =
     (let nx = coord_y a - coord_y b;
          ny = coord_x b - coord_x a;
          d = 2 * (coord_x v * nx + coord_y v * ny) / (nx\<^sup>2 + ny\<^sup>2)
      in \<lparr>coord_x = coord_x v - d * nx, coord_y = coord_y v - d * ny\<rparr>)"

text \<open>
  The theorems below hold for any helpers. These are the ones the instances are run
  with: a download that succeeds, a document with one \<^verbatim>\<open>svg\<close> element of width 100
  and height 50 and no path, and the geometry above.
\<close>

definition geometryHelpers :: Helpers where
  "geometryHelpers = \<lparr>fetch = (\<lambda>u. Resolved True ''<svg/>''),
     parseFromString = (\<lambda>xml. \<lparr>doc_svgs = [\<lparr>svg_paths = [], attr_width = Some 100, attr_height = Some 50\<rparr>],
                                  doc_paths = []\<rparr>),
     parsePaths = (\<lambda>ps scl off. []),
     numberToString = (\<lambda>r. []),
     hasAddPath = True,
     calcClosestPtOnSegment = spec_calcClosestPtOnSegment,
     getDistances = spec_getDistances,
     getDistance = (\<lambda>a b. dist_distance (spec_getDistances a b)),
     segmentBounce = spec_reflectVelocity\<rparr>"

text \<open>
  The instance of the offset formula: a canvas of 800 by 600, the position (50, 50) and
  the scale 2, so that the scaled bounding box is 200 by 100.
\<close>

definition offsetInstance :: PolygonMaskInstance where
  "offsetInstance = squareInstance\<lparr>raw := None, scale := 2,
     options := Some (squareOptions\<lparr>opt_position := Some \<lparr>coord_x = 50, coord_y = 50\<rparr>\<rparr>)\<rparr>"

text \<open>
  The edge of vertex \<open>i\<close> in the loop of \<^verbatim>\<open>_polygonBounce\<close> joins it to the vertex
  before it; \<open>edgeClosest\<close> is the \<^verbatim>\<open>closest\<close> the loop computes for that edge and
  \<open>edgeWithinRadius\<close> its test \<^verbatim>\<open>dist.distance < radius\<close>.
\<close>

definition edgeClosest :: "Helpers \<Rightarrow> ICoordinates list \<Rightarrow> ICoordinates \<Rightarrow> nat \<Rightarrow> ICoordinates" where
  "edgeClosest h rw pos i =
     calcClosestPtOnSegment h (rw ! i) (rw ! ((i + length rw - 1) mod length rw)) pos"

definition edgeWithinRadius :: "Helpers \<Rightarrow> ICoordinates list \<Rightarrow> ICoordinates \<Rightarrow> real \<Rightarrow> nat \<Rightarrow> bool" where
  "edgeWithinRadius h rw pos radius i \<longleftrightarrow>
     dist_distance (getDistances h pos (edgeClosest h rw pos i)) < radius"

text \<open>A particle of radius 1 at (20, 5), to the right of the square.\<close>

definition farParticle :: Particle where
  "farParticle = \<lparr>p_position = \<lparr>coord_x = 20, coord_y = 5\<rparr>, p_velocity = \<lparr>coord_x = 1, coord_y = 2\<rparr>,
     p_initialPosition = None, p_getPosition = \<lparr>coord_x = 20, coord_y = 5\<rparr>, p_getRadius = 1\<rparr>"

text \<open>
  The snap of \<^verbatim>\<open>particleBounce\<close> in the words of the specification, as far as the
  position and the result go: the new position lies twice the diameter from the closest
  point, on each axis on the side the factor gives, and the call reports true.
\<close>

definition spec_snapPosition :: "ICoordinates \<Rightarrow> ICoordinates \<Rightarrow> real \<Rightarrow> ICoordinates" where
  "spec_snapPosition closest pos radius =
     \<lparr>coord_x = coord_x closest + 2 * (2 * radius) * (if coord_x pos \<ge> coord_x closest then - 1 else 1),
      coord_y = coord_y closest + 2 * (2 * radius) * (if coord_y pos \<ge> coord_y closest then - 1 else 1)\<rparr>"

definition spec_bounce_snaps ::
  "Helpers \<Rightarrow> PolygonMaskInstance \<Rightarrow> Particle \<Rightarrow> ICoordinates \<Rightarrow> bool" where
  "spec_bounce_snaps h this particle closest \<longleftrightarrow>
     map_sum id (\<lambda>(handled, particle'). (handled, p_position particle'))
       (particleBounce h this particle Dir_top) =
       Inr (True, spec_snapPosition closest (p_getPosition particle) (p_getRadius particle))"

text \<open>
  Two path segments of lengths 10 and 30 along the abscissa, for the equidistant
  sampler with four particles.
\<close>

definition lineElement :: SVGPathElement where
  "lineElement = \<lparr>attr_d = Some ''M0 0 H40'', getTotalLength = 10,
     getPointAtLength = (\<lambda>d. \<lparr>coord_x = d, coord_y = 0\<rparr>)\<rparr>"

definition equidistantPaths :: "ISvgPath list" where
  "equidistantPaths = [\<lparr>element = lineElement, length_of = 10, path2d = None\<rparr>,
                       \<lparr>element = lineElement, length_of = 30, path2d = None\<rparr>]"

definition equidistantInstance :: PolygonMaskInstance where
  "equidistantInstance = inlineInstance\<lparr>paths := Some equidistantPaths\<rparr>"

text \<open>
  An instance configured with a URL and nothing loaded, helpers whose document has one
  path and whose \<^verbatim>\<open>parsePaths\<close> yields the square, and the instance the first load
  leaves behind.
\<close>

definition urlHelpers :: Helpers where
  "urlHelpers = geometryHelpers\<lparr>
     parseFromString := (\<lambda>xml. \<lparr>doc_svgs = [\<lparr>svg_paths = [lineElement], attr_width = Some 100,
                                                attr_height = Some 50\<rparr>],
                                  doc_paths = [lineElement]\<rparr>),
     parsePaths := (\<lambda>ps scl off. square)\<rparr>"

definition urlInstance :: PolygonMaskInstance where
  "urlInstance = squareInstance\<lparr>raw := None,
     options := Some (squareOptions\<lparr>opt_url := Some ''mask.svg''\<rparr>)\<rparr>"

definition urlLoaded :: PolygonMaskInstance where
  "urlLoaded = urlInstance\<lparr>
     dimension := \<lparr>dim_height = 50, dim_width = 100\<rparr>,
     offset := Some \<lparr>coord_x = 350, coord_y = 275\<rparr>,
     paths := Some [\<lparr>element = lineElement, length_of = 10,
                     path2d = Some (Path2D_scaled ''M0 0 H40'' 1)\<rparr>],
     raw := Some square,
     events := [''polygonMaskLoaded''],
     fetched := [''mask.svg''],
     parsed := [''<svg/>'']\<rparr>"

section \<open>Containment\<close>

lemma intersect_spec: "intersect p q x y = spec_edgeCrosses p q x y"
  by (auto simp: intersect_def spec_edgeCrosses_def algebra_simps)

text \<open>
  The loop from index \<open>i\<close> on flips the flag once for every crossing edge among the
  vertices still to come, provided \<open>j\<close> is the index before \<open>i\<close>.
\<close>

lemma rayLoop_count:
  "i \<le> length rw \<Longrightarrow> j = (i + length rw - 1) mod length rw \<Longrightarrow>
   rayLoop rw x y i j ins =
     (ins \<noteq> odd (length (filter (\<lambda>k. intersect (rw ! k) (rw ! ((k + length rw - 1) mod length rw)) x y)
                    [i..<length rw])))"
proof (induction rw x y i j ins rule: rayLoop.induct)
  case (1 rw x y i j ins)
  show ?case
  proof (cases "i < length rw")
    case True
    have nxt: "i = (i + 1 + length rw - 1) mod length rw" using True by simp
    have ih: "rayLoop rw x y (i + 1) i (if intersect (rw ! i) (rw ! j) x y then \<not> ins else ins) =
      ((if intersect (rw ! i) (rw ! j) x y then \<not> ins else ins) \<noteq>
        odd (length (filter (\<lambda>k. intersect (rw ! k) (rw ! ((k + length rw - 1) mod length rw)) x y)
                    [i + 1..<length rw])))"
      using "1.IH"[OF True _ nxt] True by simp
    have up: "[i..<length rw] = i # [i + 1..<length rw]"
      using True by (simp add: upt_conv_Cons)
    show ?thesis
      using True ih "1.prems"(2) by (subst rayLoop.simps) (auto simp: up)
  next
    case False
    then show ?thesis using "1.prems" by (subst rayLoop.simps) simp
  qed
qed

lemma rayLoop_spec: "rayLoop rw x y 0 (length rw - 1) False = spec_pointInPolygon rw x y"
proof (cases "rw = []")
  case True
  then show ?thesis by (subst rayLoop.simps) (simp add: spec_pointInPolygon_def)
next
  case False
  then have "length rw - 1 = (0 + length rw - 1) mod length rw" by simp
  from rayLoop_count[OF _ this, of x y False] show ?thesis
    by (simp add: spec_pointInPolygon_def intersect_spec)
qed

lemma square_length: "length square = 4"
  by (simp add: square_def)

lemma square_inside: "rayLoop square 5 5 0 3 False = True"
  by (simp add: rayLoop.simps square_def intersect_def)

lemma square_outside_far: "rayLoop square 15 15 0 3 False = False"
  by (simp add: rayLoop.simps square_def intersect_def)

lemma square_outside_near: "rayLoop square (- 1) (- 1) 0 3 False = False"
  by (simp add: rayLoop.simps square_def intersect_def)

lemma square_spec_inside: "spec_pointInPolygon square 5 5"
  by (simp add: spec_pointInPolygon_def square_def spec_edgeCrosses_def upt_conv_Cons)

text \<open>
  Claim C1. For an enabled mask of type \<open>inside\<close> with a loaded polygon,
  \<^verbatim>\<open>_checkInsidePolygon\<close> at a given point is the even-odd ray casting of the
  specification: the flag is flipped by exactly the edges with one endpoint strictly
  above the point's ordinate, the other not, and the interpolated abscissa greater than
  the point's. On the square (0,0), (10,0), (10,10), (0,10) the point (5,5) is inside
  and the points (15,15) and (-1,-1) are outside.
\<close>

theorem checkInsidePolygon_ray_casting:
  "(options this = Some opts \<longrightarrow> opt_enable opts \<longrightarrow> opt_type opts = Type_inside \<longrightarrow>
      raw this = Some rw \<longrightarrow>
      checkInsidePolygon this (Some p) rnd_x rnd_y
        = Inr (spec_pointInPolygon rw (coord_x p) (coord_y p))) \<and>
   checkInsidePolygon squareInstance (Some \<lparr>coord_x = 5, coord_y = 5\<rparr>) rnd_x rnd_y = Inr True \<and>
   checkInsidePolygon squareInstance (Some \<lparr>coord_x = 15, coord_y = 15\<rparr>) rnd_x rnd_y = Inr False \<and>
   checkInsidePolygon squareInstance (Some \<lparr>coord_x = - 1, coord_y = - 1\<rparr>) rnd_x rnd_y = Inr False"
proof (intro conjI impI)
  assume "options this = Some opts" "opt_enable opts" "opt_type opts = Type_inside" "raw this = Some rw"
  then show "checkInsidePolygon this (Some p) rnd_x rnd_y
        = Inr (spec_pointInPolygon rw (coord_x p) (coord_y p))"
    by (simp add: checkInsidePolygon_def rayLoop_spec [unfolded One_nat_def])
next
  show "checkInsidePolygon squareInstance (Some \<lparr>coord_x = 5, coord_y = 5\<rparr>) rnd_x rnd_y = Inr True"
    by (simp add: checkInsidePolygon_def squareInstance_def squareOptions_def square_length square_inside)
  show "checkInsidePolygon squareInstance (Some \<lparr>coord_x = 15, coord_y = 15\<rparr>) rnd_x rnd_y = Inr False"
    by (simp add: checkInsidePolygon_def squareInstance_def squareOptions_def square_length
        square_outside_far)
  show "checkInsidePolygon squareInstance (Some \<lparr>coord_x = - 1, coord_y = - 1\<rparr>) rnd_x rnd_y = Inr False"
    by (simp add: checkInsidePolygon_def squareInstance_def squareOptions_def square_length
        square_outside_near)
qed

theorem checkInsidePolygon_ray_casting_witness:
  "options squareInstance = Some squareOptions \<and> opt_enable squareOptions \<and>
   opt_type squareOptions = Type_inside \<and> raw squareInstance = Some square \<and>
   checkInsidePolygon squareInstance (Some \<lparr>coord_x = 5, coord_y = 5\<rparr>) 0 0
     = Inr (spec_pointInPolygon square 5 5) \<and>
   spec_pointInPolygon square 5 5"
  using checkInsidePolygon_ray_casting [of squareInstance squareOptions square
      "\<lparr>coord_x = 5, coord_y = 5\<rparr>" 0 0]
  by (simp add: squareInstance_def squareOptions_def square_spec_inside)

text \<open>
  Claim C2. For an enabled mask with a loaded polygon and any point, the containment
  check under type \<open>inside\<close> returns the ray-casting flag and under type \<open>outside\<close> its
  negation: the two are logical complements of the same test.
\<close>

theorem inside_outside_complement:
  "options this = Some opts \<Longrightarrow> opt_enable opts \<Longrightarrow> raw this = Some rw \<Longrightarrow>
   checkInsidePolygon (this\<lparr>options := Some (opts\<lparr>opt_type := Type_inside\<rparr>)\<rparr>) (Some p) rnd_x rnd_y
     = Inr (rayLoop rw (coord_x p) (coord_y p) 0 (length rw - 1) False) \<and>
   checkInsidePolygon (this\<lparr>options := Some (opts\<lparr>opt_type := Type_outside\<rparr>)\<rparr>) (Some p) rnd_x rnd_y
     = Inr (\<not> rayLoop rw (coord_x p) (coord_y p) 0 (length rw - 1) False)"
  by (simp add: checkInsidePolygon_def)

theorem inside_outside_complement_witness:
  "options squareInstance = Some squareOptions \<and> opt_enable squareOptions \<and>
   raw squareInstance = Some square \<and>
   checkInsidePolygon (squareInstance\<lparr>options := Some (squareOptions\<lparr>opt_type := Type_inside\<rparr>)\<rparr>)
       (Some \<lparr>coord_x = 5, coord_y = 5\<rparr>) 0 0 = Inr True \<and>
   checkInsidePolygon (squareInstance\<lparr>options := Some (squareOptions\<lparr>opt_type := Type_outside\<rparr>)\<rparr>)
       (Some \<lparr>coord_x = 5, coord_y = 5\<rparr>) 0 0 = Inr False"
  using inside_outside_complement [of squareInstance squareOptions square
      "\<lparr>coord_x = 5, coord_y = 5\<rparr>" 0 0]
  by (simp add: squareInstance_def squareOptions_def square_length square_inside)

section \<open>Lifecycle and initial particles\<close>

text \<open>
  Claim C7, as stated, fails: \<^verbatim>\<open>stop()\<close> deletes \<^verbatim>\<open>raw\<close> and \<^verbatim>\<open>paths\<close> only,
  so an instance that has an offset still has it afterwards.
\<close>

theorem stop_keeps_offset_counterexample: "\<not> spec_stop_discards loadedInstance"
  by (simp add: spec_stop_discards_def stop_def loadedInstance_def)

text \<open>
  Claim C7, amended. \<^verbatim>\<open>stop()\<close> discards the loaded polygon data and the parsed
  path segments, leaves the offset as it was, and is idempotent.
\<close>

theorem stop_discards_raw_and_paths:
  "raw (stop this) = None \<and> paths (stop this) = None \<and> offset (stop this) = offset this \<and>
   stop (stop this) = stop this"
  by (simp add: stop_def)

text \<open>
  Claim C8, as stated, fails: with the arrangement \<open>onePerPoint\<close> but the mask type
  \<open>inside\<close>, \<^verbatim>\<open>particlesInitialization()\<close> spawns nothing and returns false.
\<close>

theorem particlesInitialization_counterexample:
  "options squareInstance = Some squareOptions \<and>
   \<not> spec_particlesInitialization squareInstance squareOptions"
  by (simp add: spec_particlesInitialization_def particlesInitialization_def
      squareInstance_def squareOptions_def)

lemma drawPoints_foldl:
  "foldl (\<lambda>s item. s\<lparr>added := added s @ [\<lparr>coord_x = coord_x item, coord_y = coord_y item\<rparr>]\<rparr>) this rw
     = this\<lparr>added := added this @ rw\<rparr>"
  by (induction rw arbitrary: this) simp_all

lemma drawPoints_added:
  "drawPoints this = this\<lparr>added := added this @ (case raw this of None \<Rightarrow> [] | Some rw \<Rightarrow> rw)\<rparr>"
  by (simp add: drawPoints_def drawPoints_foldl split: option.splits)

text \<open>
  Claim C8, amended. \<^verbatim>\<open>particlesInitialization()\<close> returns true and spawns one
  particle at every vertex of the polygon, in order, exactly when the mask is enabled,
  its type is \<open>inline\<close> and the arrangement is \<open>onePerPoint\<close> or \<open>perPoint\<close>; in every
  other configuration it spawns nothing and returns false.
\<close>

theorem particlesInitialization_inline_only:
  "particlesInitialization this =
     (if (case options this of
            None \<Rightarrow> False
          | Some opts \<Rightarrow> opt_enable opts \<and> opt_type opts = Type_inline \<and>
              (opt_inline_arrangement opts = Arr_onePerPoint \<or>
               opt_inline_arrangement opts = Arr_perPoint))
      then (True, this\<lparr>added := added this @ (case raw this of None \<Rightarrow> [] | Some rw \<Rightarrow> rw)\<rparr>)
      else (False, this))"
  by (simp add: particlesInitialization_def drawPoints_added split: option.splits)

theorem particlesInitialization_inline_only_witness:
  "particlesInitialization inlineInstance = (True, inlineInstance\<lparr>added := square\<rparr>) \<and>
   particlesInitialization squareInstance = (False, squareInstance)"
  using particlesInitialization_inline_only [of inlineInstance]
    particlesInitialization_inline_only [of squareInstance]
  by (simp add: inlineInstance_def squareInstance_def squareOptions_def)

section \<open>Samplers\<close>

lemma js_rem_nonneg: "0 \<le> a \<Longrightarrow> 0 < b \<Longrightarrow> js_rem a b = a mod b"
  by (cases "a = 0") (simp_all add: js_rem_def)

lemma js_rem_nat: "0 \<le> a \<Longrightarrow> 0 < n \<Longrightarrow> nat (js_rem a (int n)) = nat a mod n"
  by (simp add: js_rem_nonneg nat_mod_distrib)

text \<open>
  Claim C9. \<^verbatim>\<open>_getPointByIndex\<close> throws the data-not-loaded error if and only if
  \<^verbatim>\<open>raw\<close> is absent or empty; otherwise, for an index that is a count (not negative),
  it returns the coordinates of the vertex at position index mod polygon length.
\<close>

theorem getPointByIndex_vertex:
  "(getPointByIndex this index = Inl NoPolygonDataLoaded
      \<longleftrightarrow> raw this = None \<or> raw this = Some []) \<and>
   (\<forall>rw. raw this = Some rw \<longrightarrow> rw \<noteq> [] \<longrightarrow> 0 \<le> index \<longrightarrow>
      getPointByIndex this index = Inr (rw ! (nat index mod length rw)))"
proof (intro conjI allI impI)
  show "getPointByIndex this index = Inl NoPolygonDataLoaded
      \<longleftrightarrow> raw this = None \<or> raw this = Some []"
    by (auto simp: getPointByIndex_def Let_def split: option.splits)
next
  fix rw assume "raw this = Some rw" "rw \<noteq> []" "0 \<le> index"
  moreover from this have "0 \<le> js_rem index (int (length rw))"
    by (simp add: js_rem_nonneg)
  ultimately show "getPointByIndex this index = Inr (rw ! (nat index mod length rw))"
    by (simp add: getPointByIndex_def Let_def js_rem_nat)
qed

theorem getPointByIndex_vertex_witness:
  "raw squareInstance = Some square \<and> square \<noteq> [] \<and> (0::int) \<le> 6 \<and>
   getPointByIndex squareInstance 6 = Inr \<lparr>coord_x = 10, coord_y = 10\<rparr> \<and>
   getPointByIndex (stop squareInstance) 6 = Inl NoPolygonDataLoaded"
  using getPointByIndex_vertex [of squareInstance 6] getPointByIndex_vertex [of "stop squareInstance" 6]
  by (simp add: squareInstance_def square_def stop_def)

text \<open>
  Claim C10. \<^verbatim>\<open>particlePosition\<close> returns \<^verbatim>\<open>undefined\<close> whenever the mask is
  disabled or \<^verbatim>\<open>raw\<close> is absent or empty; with the mask enabled and a non-empty
  polygon, a supplied position is returned as it is, whatever the containment test says
  of it.
\<close>

theorem particlePosition_passthrough:
  "((case options this of None \<Rightarrow> True | Some opts \<Rightarrow> \<not> opt_enable opts) \<or>
    raw this = None \<or> raw this = Some [] \<longrightarrow>
      particlePosition n this position rnd k = Some (Inr None)) \<and>
   (options this = Some opts \<longrightarrow> opt_enable opts \<longrightarrow> raw this = Some rw \<longrightarrow> rw \<noteq> [] \<longrightarrow>
      particlePosition n this (Some p) rnd k = Some (Inr (Some p)))"
  by (auto simp: particlePosition_def split: option.splits)

theorem particlePosition_passthrough_witness:
  "options squareInstance = Some squareOptions \<and> opt_enable squareOptions \<and>
   raw squareInstance = Some square \<and> square \<noteq> [] \<and>
   checkInsidePolygon squareInstance (Some \<lparr>coord_x = 15, coord_y = 15\<rparr>) 0 0 = Inr False \<and>
   particlePosition 0 squareInstance (Some \<lparr>coord_x = 15, coord_y = 15\<rparr>) (\<lambda>i. 0) 0
     = Some (Inr (Some \<lparr>coord_x = 15, coord_y = 15\<rparr>)) \<and>
   raw (stop squareInstance) = None \<and>
   particlePosition 0 (stop squareInstance) (Some \<lparr>coord_x = 15, coord_y = 15\<rparr>) (\<lambda>i. 0) 0
     = Some (Inr None)"
  using particlePosition_passthrough [of squareInstance 0 "Some \<lparr>coord_x = 15, coord_y = 15\<rparr>"
      "\<lambda>i. 0" 0 squareOptions square "\<lparr>coord_x = 15, coord_y = 15\<rparr>"]
    particlePosition_passthrough [of "stop squareInstance" 0 "Some \<lparr>coord_x = 15, coord_y = 15\<rparr>"
      "\<lambda>i. 0" 0 squareOptions square "\<lparr>coord_x = 15, coord_y = 15\<rparr>"]
  by (simp add: squareInstance_def squareOptions_def square_def stop_def checkInsidePolygon_def
      rayLoop.simps intersect_def)

section \<open>Collisions\<close>

lemma far_edges:
  "edgeClosest geometryHelpers square \<lparr>coord_x = 20, coord_y = 5\<rparr> 0 = \<lparr>coord_x = 0, coord_y = 5\<rparr>"
  "edgeClosest geometryHelpers square \<lparr>coord_x = 20, coord_y = 5\<rparr> 1 = \<lparr>coord_x = 10, coord_y = 0\<rparr>"
  "edgeClosest geometryHelpers square \<lparr>coord_x = 20, coord_y = 5\<rparr> 2 = \<lparr>coord_x = 10, coord_y = 5\<rparr>"
  "edgeClosest geometryHelpers square \<lparr>coord_x = 20, coord_y = 5\<rparr> 3 = \<lparr>coord_x = 10, coord_y = 10\<rparr>"
  by (simp_all add: edgeClosest_def geometryHelpers_def square_def spec_calcClosestPtOnSegment_def
      Let_def)

lemma far_distances:
  "getDistances geometryHelpers a b = spec_getDistances a b"
  "dist_distance (spec_getDistances a b) < 1
     \<longleftrightarrow> (coord_x a - coord_x b)\<^sup>2 + (coord_y a - coord_y b)\<^sup>2 < 1"
  by (simp_all add: geometryHelpers_def spec_getDistances_def)

lemma far_not_within:
  "i < 4 \<Longrightarrow> \<not> edgeWithinRadius geometryHelpers square \<lparr>coord_x = 20, coord_y = 5\<rparr> 1 i"
proof -
  assume "i < 4"
  then consider "i = 0" | "i = 1" | "i = 2" | "i = 3" by linarith
  then show ?thesis
    by cases (simp_all add: edgeWithinRadius_def far_edges(1,3,4) far_edges(2) [unfolded One_nat_def]
        far_distances)
qed

lemma bounceLoop_none:
  "i \<le> length rw \<Longrightarrow> j = (i + length rw - 1) mod length rw \<Longrightarrow>
   \<forall>k. i \<le> k \<and> k < length rw \<longrightarrow> \<not> edgeWithinRadius h rw pos radius k \<Longrightarrow>
   bounceLoop h rw pos radius i j last_seen =
     Inr (if i < length rw
          then Some (edgeClosest h rw pos (length rw - 1),
                     dist_dx (getDistances h pos (edgeClosest h rw pos (length rw - 1))),
                     dist_dy (getDistances h pos (edgeClosest h rw pos (length rw - 1))))
          else last_seen)"
proof (induction h rw pos radius i j last_seen rule: bounceLoop.induct)
  case (1 h rw pos radius i j last_seen)
  show ?case
  proof (cases "i < length rw")
    case False
    then show ?thesis by (subst bounceLoop.simps) simp
  next
    case True
    have here: "\<not> dist_distance (getDistances h pos (calcClosestPtOnSegment h (rw ! i) (rw ! j) pos)) < radius"
      using "1.prems"(2,3) True by (auto simp: edgeWithinRadius_def edgeClosest_def)
    have nxt: "i = (i + 1 + length rw - 1) mod length rw" using True by simp
    have later: "\<forall>k. i + 1 \<le> k \<and> k < length rw \<longrightarrow> \<not> edgeWithinRadius h rw pos radius k"
      using "1.prems"(3) by auto
    have closest_i: "calcClosestPtOnSegment h (rw ! i) (rw ! j) pos = edgeClosest h rw pos i"
      using "1.prems"(2) by (simp add: edgeClosest_def)
    note ih = "1.IH" [OF True here _ nxt later]
    show ?thesis
    proof (cases "i + 1 < length rw")
      case True
      then show ?thesis
        using ih here \<open>i < length rw\<close> by (subst bounceLoop.simps) simp
    next
      case False
      then have "i = length rw - 1" using \<open>i < length rw\<close> by simp
      then show ?thesis
        using ih here \<open>i < length rw\<close> False closest_i by (subst bounceLoop.simps) simp
    qed
  qed
qed

text \<open>
  When no edge is nearer than the radius, the loop ends with the closest point of the
  last edge; if the containment test then fails, the particle is moved, and nothing
  else of it changes.
\<close>

lemma polygonBounce_last_closest:
  assumes "raw this = Some rw" and "rw \<noteq> []" and "options this = Some opts" and "opt_enable opts"
    and "opt_type opts = Type_inside \<or> opt_type opts = Type_outside"
    and "\<forall>i<length rw. \<not> edgeWithinRadius h rw (p_getPosition particle) (p_getRadius particle) i"
    and "checkInsidePolygon this (Some (p_getPosition particle)) 0 0 = Inr False"
  shows "polygonBounce h this particle Dir_top =
    Inr (True,
         particle\<lparr>p_position :=
           \<lparr>coord_x = coord_x (edgeClosest h rw (p_getPosition particle) (length rw - 1))
              + 2 * p_getRadius particle
                * (if coord_x (p_getPosition particle)
                        \<ge> coord_x (edgeClosest h rw (p_getPosition particle) (length rw - 1))
                   then - 1 else 1),
            coord_y = coord_y (edgeClosest h rw (p_getPosition particle) (length rw - 1))
              + 2 * p_getRadius particle
                * (if coord_y (p_getPosition particle)
                        \<ge> coord_y (edgeClosest h rw (p_getPosition particle) (length rw - 1))
                   then - 1 else 1)\<rparr>\<rparr>)"
proof -
  have start: "length rw - 1 = (0 + length rw - 1) mod length rw" using assms(2) by simp
  have "bounceLoop h rw (p_getPosition particle) (p_getRadius particle) 0 (length rw - 1) None =
     Inr (Some (edgeClosest h rw (p_getPosition particle) (length rw - 1),
                dist_dx (getDistances h (p_getPosition particle)
                           (edgeClosest h rw (p_getPosition particle) (length rw - 1))),
                dist_dy (getDistances h (p_getPosition particle)
                           (edgeClosest h rw (p_getPosition particle) (length rw - 1)))))"
    using bounceLoop_none [OF _ start, of h "p_getPosition particle" "p_getRadius particle" None]
      assms(2,6) by simp
  then show ?thesis
    using assms(1,3,4,5,7) by (auto simp: polygonBounce_def Let_def mult.commute)
qed

lemma far_outside: "checkInsidePolygon squareInstance (Some \<lparr>coord_x = 20, coord_y = 5\<rparr>) 0 0 = Inr False"
  by (simp add: checkInsidePolygon_def squareInstance_def squareOptions_def square_def
      rayLoop.simps intersect_def)

lemma far_all_edges:
  "\<forall>i<length square. \<not> edgeWithinRadius geometryHelpers square (p_getPosition farParticle)
      (p_getRadius farParticle) i"
  using far_not_within by (simp add: farParticle_def square_length)

lemma far_bounce:
  "polygonBounce geometryHelpers squareInstance farParticle Dir_top =
     Inr (True, farParticle\<lparr>p_position := \<lparr>coord_x = 8, coord_y = 12\<rparr>\<rparr>)"
proof -
  have "polygonBounce geometryHelpers squareInstance farParticle Dir_top =
    Inr (True,
         farParticle\<lparr>p_position :=
           \<lparr>coord_x = coord_x (edgeClosest geometryHelpers square (p_getPosition farParticle) (length square - 1))
              + 2 * p_getRadius farParticle
                * (if coord_x (p_getPosition farParticle)
                        \<ge> coord_x (edgeClosest geometryHelpers square (p_getPosition farParticle) (length square - 1))
                   then - 1 else 1),
            coord_y = coord_y (edgeClosest geometryHelpers square (p_getPosition farParticle) (length square - 1))
              + 2 * p_getRadius farParticle
                * (if coord_y (p_getPosition farParticle)
                        \<ge> coord_y (edgeClosest geometryHelpers square (p_getPosition farParticle) (length square - 1))
                   then - 1 else 1)\<rparr>\<rparr>)"
    using far_all_edges far_outside
    by (intro polygonBounce_last_closest [where opts = squareOptions])
       (simp_all add: squareInstance_def squareOptions_def square_def farParticle_def)
  then show ?thesis
    by (simp add: square_length far_edges farParticle_def)
qed

text \<open>
  Claim C3, as stated, fails: the particle at (20, 5) with radius 1 ends at (8, 12), one
  diameter from the point (10, 10), and not two diameters from it nor from (10, 5), the
  point of the outline nearest to the particle.
\<close>

theorem particleBounce_snap_counterexample:
  "\<not> spec_bounce_snaps geometryHelpers squareInstance farParticle \<lparr>coord_x = 10, coord_y = 10\<rparr> \<and>
   \<not> spec_bounce_snaps geometryHelpers squareInstance farParticle \<lparr>coord_x = 10, coord_y = 5\<rparr>"
  unfolding spec_bounce_snaps_def particleBounce_def far_bounce
  by (simp add: spec_snapPosition_def farParticle_def)

text \<open>
  Claim C3, amended. In \<^verbatim>\<open>particleBounce\<close> for the direction \<open>top\<close>, with the mask
  enabled, of type \<open>inside\<close> or \<open>outside\<close> and a non-empty polygon: when no edge lies
  within the particle's radius and the particle violates the containment rule, its
  position is set one diameter (twice the radius) from the closest point on the last
  edge examined, on each axis towards the lower coordinates when the particle is not
  below the closest point there and towards the higher ones otherwise, and the call
  reports true. The statement is about the result and the position only.
\<close>

theorem particleBounce_snap:
  assumes "raw this = Some rw" and "rw \<noteq> []" and "options this = Some opts" and "opt_enable opts"
    and "opt_type opts = Type_inside \<or> opt_type opts = Type_outside"
    and "\<forall>i<length rw. \<not> edgeWithinRadius h rw (p_getPosition particle) (p_getRadius particle) i"
    and "checkInsidePolygon this (Some (p_getPosition particle)) 0 0 = Inr False"
  shows "map_sum id (\<lambda>(handled, particle'). (handled, p_position particle'))
      (particleBounce h this particle Dir_top) =
    Inr (True,
         \<lparr>coord_x = coord_x (edgeClosest h rw (p_getPosition particle) (length rw - 1))
            + 2 * p_getRadius particle
              * (if coord_x (p_getPosition particle)
                      \<ge> coord_x (edgeClosest h rw (p_getPosition particle) (length rw - 1))
                 then - 1 else 1),
          coord_y = coord_y (edgeClosest h rw (p_getPosition particle) (length rw - 1))
            + 2 * p_getRadius particle
              * (if coord_y (p_getPosition particle)
                      \<ge> coord_y (edgeClosest h rw (p_getPosition particle) (length rw - 1))
                 then - 1 else 1)\<rparr>)"
  unfolding particleBounce_def polygonBounce_last_closest [OF assms] by simp

theorem particleBounce_snap_witness:
  "raw squareInstance = Some square \<and> square \<noteq> [] \<and> options squareInstance = Some squareOptions \<and>
   opt_enable squareOptions \<and> opt_type squareOptions = Type_inside \<and>
   \<not> edgeWithinRadius geometryHelpers square (p_getPosition farParticle) (p_getRadius farParticle) 0 \<and>
   \<not> edgeWithinRadius geometryHelpers square (p_getPosition farParticle) (p_getRadius farParticle) 1 \<and>
   \<not> edgeWithinRadius geometryHelpers square (p_getPosition farParticle) (p_getRadius farParticle) 2 \<and>
   \<not> edgeWithinRadius geometryHelpers square (p_getPosition farParticle) (p_getRadius farParticle) 3 \<and>
   checkInsidePolygon squareInstance (Some (p_getPosition farParticle)) 0 0 = Inr False \<and>
   map_sum id (\<lambda>(handled, particle'). (handled, p_position particle'))
       (particleBounce geometryHelpers squareInstance farParticle Dir_top) =
     Inr (True, \<lparr>coord_x = 8, coord_y = 12\<rparr>)"
proof -
  have h1: "raw squareInstance = Some square" and h3: "options squareInstance = Some squareOptions"
    by (simp_all add: squareInstance_def)
  have h2: "square \<noteq> []" by (simp add: square_def)
  have h4: "opt_enable squareOptions"
    and h5: "opt_type squareOptions = Type_inside \<or> opt_type squareOptions = Type_outside"
    by (simp_all add: squareOptions_def)
  have h7: "checkInsidePolygon squareInstance (Some (p_getPosition farParticle)) 0 0 = Inr False"
    using far_outside by (simp add: farParticle_def)
  have edges: "\<not> edgeWithinRadius geometryHelpers square (p_getPosition farParticle) (p_getRadius farParticle) i"
    if "i < 4" for i
    using far_all_edges that by (simp add: square_length)
  have "map_sum id (\<lambda>(handled, particle'). (handled, p_position particle'))
       (particleBounce geometryHelpers squareInstance farParticle Dir_top) =
     Inr (True, \<lparr>coord_x = 8, coord_y = 12\<rparr>)"
    using particleBounce_snap [OF h1 h2 h3 h4 h5 far_all_edges h7]
    by (simp add: square_length far_edges farParticle_def)
  then show ?thesis
    using h1 h2 h3 h4 h7 edges [of 0] edges [of 1] edges [of 2] edges [of 3]
    by (simp add: squareOptions_def)
qed

section \<open>The offset computed by \<^verbatim>\<open>_parseSvgPath\<close>\<close>

text \<open>
  Claim C5. Whenever \<^verbatim>\<open>_parseSvgPath\<close> parses (nothing cached, or forced) a
  document with an \<^verbatim>\<open>svg\<close> element, the dimension it stores is the size of that
  element times the scale and the offset it stores is, on each axis, canvas size times
  relative position over 100 minus half of that dimension. For a canvas of 800 by 600,
  the position (50, 50) and a scaled bounding box of 200 by 100 the offset is (300, 250).
\<close>

theorem parseSvgPath_offset:
  "(options this = Some opts \<longrightarrow> paths this = None \<or> forceDownload force \<longrightarrow>
    doc_svgs (parseFromString h xml) = svg # others \<longrightarrow>
    (\<exists>r this'. parseSvgPath h this xml force = Inr (r, this') \<and>
       dimension this' =
         \<lparr>dim_height = (case attr_height svg of None \<Rightarrow> 0 | Some v \<Rightarrow> v) * scale this,
          dim_width = (case attr_width svg of None \<Rightarrow> 0 | Some v \<Rightarrow> v) * scale this\<rparr> \<and>
       offset this' =
         Some \<lparr>coord_x = dim_width (canvasSize this)
                   * coord_x (case opt_position opts of None \<Rightarrow> \<lparr>coord_x = 50, coord_y = 50\<rparr> | Some p \<Rightarrow> p)
                   / 100 - dim_width (dimension this') / 2,
               coord_y = dim_height (canvasSize this)
                   * coord_y (case opt_position opts of None \<Rightarrow> \<lparr>coord_x = 50, coord_y = 50\<rparr> | Some p \<Rightarrow> p)
                   / 100 - dim_height (dimension this') / 2\<rparr>)) \<and>
   map_sum id (\<lambda>(r, this'). (canvasSize this', dimension this', offset this'))
       (parseSvgPath geometryHelpers offsetInstance [] None)
     = Inr (\<lparr>dim_height = 600, dim_width = 800\<rparr>, \<lparr>dim_height = 100, dim_width = 200\<rparr>,
            Some \<lparr>coord_x = 300, coord_y = 250\<rparr>)"
proof (intro conjI impI)
  assume "options this = Some opts" "paths this = None \<or> forceDownload force"
    "doc_svgs (parseFromString h xml) = svg # others"
  then show "\<exists>r this'. parseSvgPath h this xml force = Inr (r, this') \<and>
       dimension this' =
         \<lparr>dim_height = (case attr_height svg of None \<Rightarrow> 0 | Some v \<Rightarrow> v) * scale this,
          dim_width = (case attr_width svg of None \<Rightarrow> 0 | Some v \<Rightarrow> v) * scale this\<rparr> \<and>
       offset this' =
         Some \<lparr>coord_x = dim_width (canvasSize this)
                   * coord_x (case opt_position opts of None \<Rightarrow> \<lparr>coord_x = 50, coord_y = 50\<rparr> | Some p \<Rightarrow> p)
                   / 100 - dim_width (dimension this') / 2,
               coord_y = dim_height (canvasSize this)
                   * coord_y (case opt_position opts of None \<Rightarrow> \<lparr>coord_x = 50, coord_y = 50\<rparr> | Some p \<Rightarrow> p)
                   / 100 - dim_height (dimension this') / 2\<rparr>"
    by (auto simp: parseSvgPath_def Let_def)
next
  show "map_sum id (\<lambda>(r, this'). (canvasSize this', dimension this', offset this'))
       (parseSvgPath geometryHelpers offsetInstance [] None)
     = Inr (\<lparr>dim_height = 600, dim_width = 800\<rparr>, \<lparr>dim_height = 100, dim_width = 200\<rparr>,
            Some \<lparr>coord_x = 300, coord_y = 250\<rparr>)"
    by (simp add: parseSvgPath_def Let_def geometryHelpers_def offsetInstance_def squareInstance_def
        squareOptions_def forceDownload_def)
qed

theorem parseSvgPath_offset_witness:
  "options offsetInstance = Some (squareOptions\<lparr>opt_position := Some \<lparr>coord_x = 50, coord_y = 50\<rparr>\<rparr>) \<and>
   paths offsetInstance = None \<and>
   doc_svgs (parseFromString geometryHelpers [])
     = [\<lparr>svg_paths = [], attr_width = Some 100, attr_height = Some 50\<rparr>] \<and>
   (\<exists>r this'. parseSvgPath geometryHelpers offsetInstance [] None = Inr (r, this') \<and>
      dimension this' = \<lparr>dim_height = 100, dim_width = 200\<rparr> \<and>
      offset this' = Some \<lparr>coord_x = 300, coord_y = 250\<rparr>)"
proof -
  have a: "options offsetInstance = Some (squareOptions\<lparr>opt_position := Some \<lparr>coord_x = 50, coord_y = 50\<rparr>\<rparr>)"
    by (simp add: offsetInstance_def)
  have b: "paths offsetInstance = None"
    by (simp add: offsetInstance_def squareInstance_def)
  have c: "doc_svgs (parseFromString geometryHelpers [])
     = [\<lparr>svg_paths = [], attr_width = Some 100, attr_height = Some 50\<rparr>]"
    by (simp add: geometryHelpers_def)
  have d: "scale offsetInstance = 2" "canvasSize offsetInstance = \<lparr>dim_height = 600, dim_width = 800\<rparr>"
    by (simp_all add: offsetInstance_def squareInstance_def)
  have "\<exists>r this'. parseSvgPath geometryHelpers offsetInstance [] None = Inr (r, this') \<and>
      dimension this' = \<lparr>dim_height = 100, dim_width = 200\<rparr> \<and>
      offset this' = Some \<lparr>coord_x = 300, coord_y = 250\<rparr>"
    using parseSvgPath_offset [of offsetInstance
        "squareOptions\<lparr>opt_position := Some \<lparr>coord_x = 50, coord_y = 50\<rparr>\<rparr>" None geometryHelpers "[]"
        "\<lparr>svg_paths = [], attr_width = Some 100, attr_height = Some 50\<rparr>" "[]"] a b c
    by (simp add: d cong: conj_cong)
  with a b c show ?thesis by blast
qed

section \<open>Cached loading\<close>

lemma parseSvgPath_cached:
  "paths this \<noteq> None \<Longrightarrow> \<not> forceDownload force \<Longrightarrow>
   parseSvgPath h this xml force = Inr (raw this, this)"
  by (simp add: parseSvgPath_def)

lemma downloadSvgPath_cached:
  "options this \<noteq> None \<Longrightarrow> paths this \<noteq> None \<Longrightarrow> \<not> forceDownload force \<Longrightarrow>
   downloadSvgPath h this svgUrl force = Inr (raw this, this)"
  by (auto simp: downloadSvgPath_def Let_def)

lemma parseSvgPath_sets_paths:
  "options this \<noteq> None \<Longrightarrow> parseSvgPath h this xml force = Inr (r, s) \<Longrightarrow>
   paths s \<noteq> None \<and> options s = options this"
  by (auto simp: parseSvgPath_def Let_def split: if_splits option.splits list.splits)

lemma downloadSvgPath_sets_paths:
  "options this = Some opts \<Longrightarrow> truthy (opt_url opts) \<Longrightarrow>
   downloadSvgPath h this (opt_url opts) force = Inr (r, s) \<Longrightarrow>
   paths s \<noteq> None \<and> options s = options this"
  by (auto simp: downloadSvgPath_def Let_def truthy_def
      split: if_splits option.splits Response.splits dest!: parseSvgPath_sets_paths [rotated])

text \<open>
  \<^verbatim>\<open>_createPath2D\<close> overwrites the \<^verbatim>\<open>path2d\<close> of every path from its element, the
  scale and the raw points alone, so running it on its own result changes nothing.
\<close>

lemma createPath2D_step_again:
  "createPath2D_step h this path = Inr path' \<Longrightarrow> raw this' = raw this \<Longrightarrow>
   scale this' = scale this \<Longrightarrow> createPath2D_step h this' path' = Inr path'"
  by (auto simp: createPath2D_step_def Let_def split: option.splits if_splits)

lemma createPath2D_loop_again:
  "createPath2D_loop h this ps = Inr ps' \<Longrightarrow> raw this' = raw this \<Longrightarrow>
   scale this' = scale this \<Longrightarrow> createPath2D_loop h this' ps' = Inr ps'"
proof (induction ps arbitrary: ps')
  case Nil
  then show ?case by simp
next
  case (Cons path rest)
  from Cons.prems(1) obtain path' rest' where
    step: "createPath2D_step h this path = Inr path'" and
    loop: "createPath2D_loop h this rest = Inr rest'" and
    ps': "ps' = path' # rest'"
    by (auto split: sum.splits)
  from createPath2D_step_again [OF step Cons.prems(2,3)] Cons.IH [OF loop Cons.prems(2,3)] ps'
  show ?case by simp
qed

lemma createPath2D_loop_length:
  "createPath2D_loop h this ps = Inr ps' \<Longrightarrow> length ps' = length ps"
  by (induction ps arbitrary: ps') (auto split: sum.splits)

lemma createPath2D_keeps:
  "createPath2D h this = Inr s \<Longrightarrow>
   raw s = raw this \<and> options s = options this \<and> fetched s = fetched this \<and>
   parsed s = parsed this \<and> scale s = scale this \<and> events s = events this \<and>
   (paths this \<noteq> None \<longrightarrow> paths s \<noteq> None)"
  by (auto simp: createPath2D_def split: option.splits if_splits sum.splits)

lemma createPath2D_again:
  assumes "createPath2D h this = Inr s"
  shows "createPath2D h (s\<lparr>events := ev\<rparr>) = Inr (s\<lparr>events := ev\<rparr>)"
proof (cases "options this")
  case None
  with assms show ?thesis by (auto simp: createPath2D_def)
next
  case (Some opts)
  show ?thesis
  proof (cases "paths this")
    case None
    with assms Some show ?thesis by (auto simp: createPath2D_def)
  next
    case (Some ps)
    show ?thesis
    proof (cases "length ps = 0")
      case True
      with assms Some \<open>options this = Some opts\<close> show ?thesis by (auto simp: createPath2D_def)
    next
      case False
      with assms Some \<open>options this = Some opts\<close> obtain ps' where
        loop: "createPath2D_loop h this ps = Inr ps'" and s: "s = this\<lparr>paths := Some ps'\<rparr>"
        by (auto simp: createPath2D_def split: sum.splits)
      have "createPath2D_loop h (s\<lparr>events := ev\<rparr>) ps' = Inr ps'"
        by (rule createPath2D_loop_again [OF loop]) (simp_all add: s)
      moreover have "length ps' \<noteq> 0" using createPath2D_loop_length [OF loop] False by simp
      ultimately show ?thesis
        using \<open>options this = Some opts\<close> by (simp add: createPath2D_def s)
    qed
  qed
qed

lemma loadRawData_cached:
  "paths this \<noteq> None \<Longrightarrow> \<not> forceDownload force \<Longrightarrow> options this = Some opts \<Longrightarrow>
   loadRawData h this opts force = Inr this"
  by (simp add: loadRawData_def downloadSvgPath_cached parseSvgPath_cached split: option.splits)

lemma loadRawData_keeps_options:
  assumes "loadRawData h this opts force = Inr s0" and "options this = Some opts"
  shows "options s0 = options this"
proof (cases "truthy (opt_url opts)")
  case True
  with assms(1) obtain r s' where
    dl: "downloadSvgPath h this (opt_url opts) force = Inr (r, s')" and s0: "s0 = s'\<lparr>raw := r\<rparr>"
    by (auto simp: loadRawData_def split: sum.splits)
  from downloadSvgPath_sets_paths [OF assms(2) True dl] s0 show ?thesis by simp
next
  case False
  show ?thesis
  proof (cases "dataSvg h (opt_data opts)")
    case None
    with False assms(1) show ?thesis by (simp add: loadRawData_def)
  next
    case (Some svg)
    with False assms(1) obtain r s' where
      ps: "parseSvgPath h this svg force = Inr (r, s')" and s0: "s0 = s'\<lparr>raw := r\<rparr>"
      by (auto simp: loadRawData_def split: sum.splits)
    have "options this \<noteq> None" using assms(2) by simp
    from parseSvgPath_sets_paths [OF this ps] s0 show ?thesis by simp
  qed
qed

lemma loadRawData_sets_paths:
  assumes "loadRawData h this opts force = Inr s0" and "options this = Some opts"
    and "truthy (opt_url opts) \<or> dataSvg h (opt_data opts) \<noteq> None"
  shows "paths s0 \<noteq> None"
proof (cases "truthy (opt_url opts)")
  case True
  with assms(1) obtain r s' where
    dl: "downloadSvgPath h this (opt_url opts) force = Inr (r, s')" and s0: "s0 = s'\<lparr>raw := r\<rparr>"
    by (auto simp: loadRawData_def split: sum.splits)
  from downloadSvgPath_sets_paths [OF assms(2) True dl] s0 show ?thesis by simp
next
  case False
  with assms(3) obtain svg where svg: "dataSvg h (opt_data opts) = Some svg" by auto
  with False assms(1) obtain r s' where
    ps: "parseSvgPath h this svg force = Inr (r, s')" and s0: "s0 = s'\<lparr>raw := r\<rparr>"
    by (auto simp: loadRawData_def split: sum.splits)
  have "options this \<noteq> None" using assms(2) by simp
  from parseSvgPath_sets_paths [OF this ps] s0 show ?thesis by simp
qed

lemma initRawData_Inr:
  assumes "initRawData h this force = Inr s" and "options this = Some opts"
  obtains s0 s1 where "loadRawData h this opts force = Inr s0" and "createPath2D h s0 = Inr s1"
    and "s = s1\<lparr>events := events s1 @ [''polygonMaskLoaded'']\<rparr>"
  using assms by (auto simp: initRawData_def split: sum.splits)

lemma initRawData_cached:
  assumes "paths this \<noteq> None" and "\<not> forceDownload force" and "initRawData h this force = Inr s"
  shows "raw s = raw this \<and> fetched s = fetched this \<and> parsed s = parsed this"
proof (cases "options this")
  case None
  with assms show ?thesis by (simp add: initRawData_def)
next
  case (Some opts)
  from initRawData_Inr [OF assms(3) Some] obtain s0 s1 where
    load: "loadRawData h this opts force = Inr s0" and create: "createPath2D h s0 = Inr s1"
    and s: "s = s1\<lparr>events := events s1 @ [''polygonMaskLoaded'']\<rparr>" .
  from load loadRawData_cached [OF assms(1,2) Some] have "s0 = this" by simp
  with createPath2D_keeps [OF create] s show ?thesis by simp
qed

lemma initRawData_twice:
  assumes "initRawData h this force = Inr s" and "\<not> forceDownload force"
  shows "\<exists>s2. initRawData h s force = Inr s2 \<and> raw s2 = raw s \<and> fetched s2 = fetched s \<and>
    parsed s2 = parsed s"
proof (cases "options this")
  case None
  with assms show ?thesis by (simp add: initRawData_def)
next
  case (Some opts)
  from initRawData_Inr [OF assms(1) Some] obtain s0 s1 where
    load: "loadRawData h this opts force = Inr s0" and create: "createPath2D h s0 = Inr s1"
    and s: "s = s1\<lparr>events := events s1 @ [''polygonMaskLoaded'']\<rparr>" .
  have opts: "options s = Some opts"
    using loadRawData_keeps_options [OF load Some] createPath2D_keeps [OF create] s Some by simp
  have again: "createPath2D h s = Inr s"
    unfolding s by (rule createPath2D_again [OF create])
  have "loadRawData h s opts force = Inr s"
  proof (cases "truthy (opt_url opts) \<or> dataSvg h (opt_data opts) \<noteq> None")
    case True
    from loadRawData_sets_paths [OF load Some True] createPath2D_keeps [OF create] s
    have "paths s \<noteq> None" by simp
    then show ?thesis by (rule loadRawData_cached [OF _ assms(2) opts])
  next
    case False
    then show ?thesis by (simp add: loadRawData_def)
  qed
  with opts again show ?thesis by (simp add: initRawData_def)
qed

lemma url_first_load: "initRawData urlHelpers urlInstance None = Inr urlLoaded"
  by (simp add: initRawData_def loadRawData_def downloadSvgPath_def parseSvgPath_def
      createPath2D_def createPath2D_step_def truthy_def forceDownload_def Let_def
      urlHelpers_def geometryHelpers_def urlInstance_def urlLoaded_def squareInstance_def
      squareOptions_def lineElement_def)

text \<open>
  Claim C4. When paths are already set and \<open>force\<close> is false, \<^verbatim>\<open>_parseSvgPath\<close> and
  \<^verbatim>\<open>_downloadSvgPath\<close> return the stored raw points and leave the instance as it
  was, the logs of fetches and of parsed documents included, and a load that returns
  keeps the raw points and both logs. Loading twice without force: after a first load
  that returned, the second returns too, with the same raw points, no further fetch and
  no further parse.
\<close>

theorem cached_load_idempotent:
  "(paths this \<noteq> None \<longrightarrow> \<not> forceDownload force \<longrightarrow>
      parseSvgPath h this xml force = Inr (raw this, this) \<and>
      (options this \<noteq> None \<longrightarrow> downloadSvgPath h this svgUrl force = Inr (raw this, this)) \<and>
      (\<forall>s. initRawData h this force = Inr s \<longrightarrow>
         raw s = raw this \<and> fetched s = fetched this \<and> parsed s = parsed this)) \<and>
   (\<not> forceDownload force \<longrightarrow>
      (\<forall>s1. initRawData h this force = Inr s1 \<longrightarrow>
         (\<exists>s2. initRawData h s1 force = Inr s2 \<and> raw s2 = raw s1 \<and> fetched s2 = fetched s1 \<and>
            parsed s2 = parsed s1)))"
proof (intro conjI impI allI)
  assume cached: "paths this \<noteq> None" "\<not> forceDownload force"
  then show "parseSvgPath h this xml force = Inr (raw this, this)"
    by (rule parseSvgPath_cached)
  show "downloadSvgPath h this svgUrl force = Inr (raw this, this)" if "options this \<noteq> None"
    using that cached by (rule downloadSvgPath_cached)
  fix s assume load: "initRawData h this force = Inr s"
  from initRawData_cached [OF cached load]
  show "raw s = raw this" "fetched s = fetched this" "parsed s = parsed this" by simp_all
next
  fix s1 assume "\<not> forceDownload force" "initRawData h this force = Inr s1"
  then show "\<exists>s2. initRawData h s1 force = Inr s2 \<and> raw s2 = raw s1 \<and> fetched s2 = fetched s1 \<and>
            parsed s2 = parsed s1"
    by (intro initRawData_twice)
qed

theorem cached_load_idempotent_witness:
  "\<not> forceDownload None \<and> paths urlLoaded \<noteq> None \<and> options urlLoaded \<noteq> None \<and>
   fetched urlInstance = [] \<and>
   initRawData urlHelpers urlInstance None = Inr urlLoaded \<and>
   raw urlLoaded = Some square \<and> fetched urlLoaded = [''mask.svg''] \<and>
   parseSvgPath urlHelpers urlLoaded ''<svg/>'' None = Inr (Some square, urlLoaded) \<and>
   downloadSvgPath urlHelpers urlLoaded (Some ''mask.svg'') None = Inr (Some square, urlLoaded) \<and>
   (\<exists>s2. initRawData urlHelpers urlLoaded None = Inr s2 \<and> raw s2 = Some square \<and>
      fetched s2 = [''mask.svg''] \<and> parsed s2 = [''<svg/>''])"
proof -
  have facts: "\<not> forceDownload None" "paths urlLoaded \<noteq> None" "options urlLoaded \<noteq> None"
    "fetched urlInstance = []" "raw urlLoaded = Some square" "fetched urlLoaded = [''mask.svg'']"
    "parsed urlLoaded = [''<svg/>'']"
    by (simp_all add: forceDownload_def urlLoaded_def urlInstance_def squareInstance_def)
  note cached = cached_load_idempotent [of urlLoaded None urlHelpers "''<svg/>''" "Some ''mask.svg''",
      THEN conjunct1, rule_format, OF facts(2) facts(1)]
  note twice = cached_load_idempotent [of urlInstance None urlHelpers,
      THEN conjunct2, rule_format, OF facts(1) url_first_load]
  from cached facts(3) have
    "parseSvgPath urlHelpers urlLoaded ''<svg/>'' None = Inr (raw urlLoaded, urlLoaded)"
    "downloadSvgPath urlHelpers urlLoaded (Some ''mask.svg'') None = Inr (raw urlLoaded, urlLoaded)"
    by simp_all
  with twice facts url_first_load show ?thesis by simp
qed

section \<open>Equidistant sampling\<close>

lemma foldl_totalLength:
  "foldl (\<lambda>tot path. tot + length_of path) a ps = a + sum_list (map length_of ps)"
  by (induction ps arbitrary: a) simp_all

lemma totalLength_sum_list: "totalLength ps = sum_list (map length_of ps)"
  by (simp add: totalLength_def foldl_totalLength)

lemma js_finite_simps:
  "js_divide a b = (if b \<noteq> 0 then Finite (a / b)
                    else if a > 0 then PlusInfinity else if a < 0 then MinusInfinity else NaN)"
  "js_times (Finite v) c = Finite (v * c)"
  "js_minus (Finite v) c = Finite (v - c)"
  "js_le (Finite v) c \<longleftrightarrow> v \<le> c"
  by (simp_all add: js_divide_def js_times_def js_minus_def js_le_def)

lemma equidistantWalk_first:
  "k < length ps \<Longrightarrow>
   \<forall>m<k. length_of (ps ! m) < target - (off + sum_list (map length_of (take m ps))) \<Longrightarrow>
   target - (off + sum_list (map length_of (take k ps))) \<le> length_of (ps ! k) \<Longrightarrow>
   equidistantWalk ps (Finite target) off
     = Inr (Some (getPointAtLength (element (ps ! k))
                    (target - (off + sum_list (map length_of (take k ps))))))"
proof (induction ps arbitrary: k off)
  case Nil
  then show ?case by simp
next
  case (Cons path rest)
  show ?case
  proof (cases k)
    case 0
    with Cons.prems show ?thesis by (simp add: js_finite_simps)
  next
    case (Suc k')
    have first: "length_of path < target - off"
      using Cons.prems(2) Suc by (auto dest: spec [of _ 0])
    have rest_before: "\<forall>m<k'. length_of (rest ! m)
        < target - (off + length_of path + sum_list (map length_of (take m rest)))"
    proof (intro allI impI)
      fix m assume "m < k'"
      then have "Suc m < k" using Suc by simp
      with Cons.prems(2) have "length_of ((path # rest) ! Suc m)
        < target - (off + sum_list (map length_of (take (Suc m) (path # rest))))" by blast
      then show "length_of (rest ! m)
        < target - (off + length_of path + sum_list (map length_of (take m rest)))"
        by (simp add: add.assoc)
    qed
    have stop_here: "target - (off + length_of path + sum_list (map length_of (take k' rest)))
        \<le> length_of (rest ! k')"
      using Cons.prems(3) Suc by (simp add: add.assoc)
    have "k' < length rest" using Cons.prems(1) Suc by simp
    from Cons.IH [OF this rest_before stop_here] first Suc show ?thesis
      by (simp add: add.assoc js_finite_simps)
  qed
qed

text \<open>
  At a target count of 0, with lengths that are not negative and an index that is a
  count, the distance is \<^verbatim>\<open>Infinity\<close> or \<^verbatim>\<open>NaN\<close>, the walk stops at no path and the
  sampler returns the bare offset.
\<close>

lemma equidistantWalk_not_finite:
  "target = PlusInfinity \<or> target = NaN \<Longrightarrow> equidistantWalk ps target off = Inr None"
  by (induction ps arbitrary: off) (auto simp: js_minus_def js_le_def)

lemma getEquidistantPointByIndex_zero_count:
  assumes "options this = Some opts" and "pathsLoaded this = Some ps"
    and "particlesNumberValue this = 0" and "0 \<le> totalLength ps" and "0 \<le> index"
  shows "getEquidistantPointByIndex this index =
    Inr (Some \<lparr>coord_x = (case offset this of Some off \<Rightarrow> coord_x off | None \<Rightarrow> 0),
               coord_y = (case offset this of Some off \<Rightarrow> coord_y off | None \<Rightarrow> 0)\<rparr>)"
proof -
  have "js_times (equidistantDistance this ps) (of_int index) = PlusInfinity \<or>
        js_times (equidistantDistance this ps) (of_int index) = NaN"
    using assms(3,4,5) by (auto simp: equidistantDistance_def js_divide_def js_times_def)
  then have "equidistantWalk ps (js_times (equidistantDistance this ps) (of_int index)) 0 = Inr None"
    by (rule equidistantWalk_not_finite)
  then show ?thesis
    using assms(1,2) by (simp add: getEquidistantPointByIndex_def Let_def)
qed

text \<open>
  Claim C6. With a polygon and paths loaded and a target particle count that is not 0,
  the stride of the equidistant sampler is the total length of the path segments
  divided by the target particle count; for an index, the sampler resolves the point in
  the first segment, in order, whose length is not exceeded by stride times index minus
  the lengths of the segments before it, at that residual offset. For a target count
  \<open>N\<close> and a positive total length, the offsets stride times \<open>i\<close> for \<open>i\<close> below \<open>N\<close>
  start at 0, never decrease and stay below the total length.
\<close>

theorem equidistant_sampling:
  assumes "options this = Some opts" and "raw this = Some rw" and "rw \<noteq> []"
    and "paths this = Some ps" and "ps \<noteq> []" and "particlesNumberValue this \<noteq> 0"
  shows "equidistantDistance this ps
      = Finite (sum_list (map length_of ps) / particlesNumberValue this) \<and>
    (\<forall>k<length ps.
       (\<forall>m<k. length_of (ps ! m)
            < totalLength ps / particlesNumberValue this * of_int index
                - sum_list (map length_of (take m ps))) \<longrightarrow>
       totalLength ps / particlesNumberValue this * of_int index
           - sum_list (map length_of (take k ps))
            \<le> length_of (ps ! k) \<longrightarrow>
       getEquidistantPointByIndex this index =
         Inr (Some \<lparr>coord_x = coord_x (getPointAtLength (element (ps ! k))
                        (totalLength ps / particlesNumberValue this * of_int index
                           - sum_list (map length_of (take k ps)))) * scale this
                      + (case offset this of Some off \<Rightarrow> coord_x off | None \<Rightarrow> 0),
                    coord_y = coord_y (getPointAtLength (element (ps ! k))
                        (totalLength ps / particlesNumberValue this * of_int index
                           - sum_list (map length_of (take k ps)))) * scale this
                      + (case offset this of Some off \<Rightarrow> coord_y off | None \<Rightarrow> 0)\<rparr>)) \<and>
    (particlesNumberValue this = real N \<longrightarrow> 0 < totalLength ps \<longrightarrow>
       (\<forall>i<N. js_times (equidistantDistance this ps) (real i)
                = Finite (totalLength ps / real N * real i) \<and>
              0 \<le> totalLength ps / real N * real i \<and>
              totalLength ps / real N * real i < totalLength ps \<and>
              (\<forall>j<N. i \<le> j \<longrightarrow>
                 totalLength ps / real N * real i \<le> totalLength ps / real N * real j)) \<and>
       js_times (equidistantDistance this ps) (real 0) = Finite 0)"
proof (intro conjI allI impI)
  show "equidistantDistance this ps
      = Finite (sum_list (map length_of ps) / particlesNumberValue this)"
    using assms(6) by (simp add: equidistantDistance_def totalLength_sum_list js_finite_simps)
next
  fix k
  assume k: "k < length ps"
    and before: "\<forall>m<k. length_of (ps ! m)
            < totalLength ps / particlesNumberValue this * of_int index
                - sum_list (map length_of (take m ps))"
    and here: "totalLength ps / particlesNumberValue this * of_int index
           - sum_list (map length_of (take k ps))
            \<le> length_of (ps ! k)"
  have loaded: "pathsLoaded this = Some ps"
    using assms by (simp add: pathsLoaded_def)
  have target: "js_times (equidistantDistance this ps) (of_int index)
      = Finite (totalLength ps / particlesNumberValue this * of_int index)"
    using assms(6) by (simp add: equidistantDistance_def js_finite_simps)
  have "equidistantWalk ps (Finite (totalLength ps / particlesNumberValue this * of_int index)) 0
     = Inr (Some (getPointAtLength (element (ps ! k))
         (totalLength ps / particlesNumberValue this * of_int index
            - (0 + sum_list (map length_of (take k ps))))))"
    using before here by (intro equidistantWalk_first [OF k]) simp_all
  then show "getEquidistantPointByIndex this index =
         Inr (Some \<lparr>coord_x = coord_x (getPointAtLength (element (ps ! k))
                        (totalLength ps / particlesNumberValue this * of_int index
                           - sum_list (map length_of (take k ps)))) * scale this
                      + (case offset this of Some off \<Rightarrow> coord_x off | None \<Rightarrow> 0),
                    coord_y = coord_y (getPointAtLength (element (ps ! k))
                        (totalLength ps / particlesNumberValue this * of_int index
                           - sum_list (map length_of (take k ps)))) * scale this
                      + (case offset this of Some off \<Rightarrow> coord_y off | None \<Rightarrow> 0)\<rparr>)"
    using assms(1) loaded target by (simp add: getEquidistantPointByIndex_def Let_def)
next
  fix i
  assume n: "particlesNumberValue this = real N" and pos: "0 < totalLength ps" and i: "i < N"
  have npos: "0 < real N" using i by simp
  show "js_times (equidistantDistance this ps) (real i) = Finite (totalLength ps / real N * real i)"
    using npos by (simp add: equidistantDistance_def js_finite_simps n)
  have spos: "0 < totalLength ps / real N" using pos npos by simp
  show "0 \<le> totalLength ps / real N * real i"
    using spos by (intro mult_nonneg_nonneg) simp_all
  have "totalLength ps / real N * real i < totalLength ps / real N * real N"
    using spos i by (intro mult_strict_left_mono) simp_all
  moreover have "totalLength ps / real N * real N = totalLength ps"
    using npos by simp
  ultimately show "totalLength ps / real N * real i < totalLength ps"
    by (simp only:)
  fix j assume "j < N" "i \<le> j"
  then show "totalLength ps / real N * real i \<le> totalLength ps / real N * real j"
    using spos by (intro mult_left_mono) simp_all
next
  show "js_times (equidistantDistance this ps) (real 0) = Finite 0"
    using assms(6) by (simp add: equidistantDistance_def js_finite_simps)
qed

lemma equidistant_facts:
  "options equidistantInstance = Some (squareOptions\<lparr>opt_type := Type_inline\<rparr>)"
  "raw equidistantInstance = Some square"
  "paths equidistantInstance = Some equidistantPaths"
  "particlesNumberValue equidistantInstance = real 4"
  "scale equidistantInstance = 1"
  "offset equidistantInstance = None"
  by (simp_all add: equidistantInstance_def inlineInstance_def squareInstance_def)

theorem equidistant_sampling_witness:
  "options equidistantInstance = Some (squareOptions\<lparr>opt_type := Type_inline\<rparr>) \<and>
   raw equidistantInstance = Some square \<and> square \<noteq> [] \<and>
   paths equidistantInstance = Some equidistantPaths \<and> equidistantPaths \<noteq> [] \<and>
   particlesNumberValue equidistantInstance \<noteq> 0 \<and>
   particlesNumberValue equidistantInstance = real 4 \<and> 0 < totalLength equidistantPaths \<and>
   equidistantDistance equidistantInstance equidistantPaths = Finite 10 \<and>
   getEquidistantPointByIndex equidistantInstance 2 = Inr (Some \<lparr>coord_x = 10, coord_y = 0\<rparr>) \<and>
   js_times (equidistantDistance equidistantInstance equidistantPaths) (real 3) = Finite 30 \<and>
   (30::real) < totalLength equidistantPaths"
proof -
  have sq: "square \<noteq> []" by (simp add: square_def)
  have ps: "equidistantPaths \<noteq> []" by (simp add: equidistantPaths_def)
  have nz: "particlesNumberValue equidistantInstance \<noteq> 0" by (simp add: equidistant_facts)
  have total: "totalLength equidistantPaths = 40"
    by (simp add: totalLength_def equidistantPaths_def)
  have tpos: "0 < totalLength equidistantPaths" by (simp add: total)
  note th = equidistant_sampling [OF equidistant_facts(1) equidistant_facts(2) sq
      equidistant_facts(3) ps nz, of 2 4]
  from th have stride: "equidistantDistance equidistantInstance equidistantPaths = Finite 10"
    by (simp add: equidistantPaths_def equidistant_facts)
  note first = th [THEN conjunct2, THEN conjunct1, rule_format, of 1]
  have point: "getEquidistantPointByIndex equidistantInstance 2
      = Inr (Some \<lparr>coord_x = 10, coord_y = 0\<rparr>)"
    using first
    by (simp add: total equidistant_facts) (simp add: equidistantPaths_def lineElement_def)
  note range = th [THEN conjunct2, THEN conjunct2, rule_format, OF equidistant_facts(4) tpos,
      THEN conjunct1, rule_format, of 3]
  then have below: "js_times (equidistantDistance equidistantInstance equidistantPaths) (real 3)
      = Finite 30" "(30::real) < totalLength equidistantPaths"
    by (simp_all add: total)
  show ?thesis
    using equidistant_facts(1-4) sq ps nz tpos stride point below by simp
qed

end
